theory Spec2Isabelle
  imports Complex_Main "HOL-Library.Sublist"
begin

section \<open>The evaluation driver of teapot (\<^verbatim>\<open>src/teapot/main.py\<close>)\<close>

text \<open>
  The driver is two functions, \<^verbatim>\<open>get_args\<close> and \<^verbatim>\<open>main\<close>. Everything they call
  outside the file (argparse, \<^verbatim>\<open>os.path\<close>, the scorer registry, the scorers,
  \<^verbatim>\<open>utils.loadtxt\<close>, \<^verbatim>\<open>utils.stats\<close>) is a field of a \<open>world\<close> record: the
  theorems hold for every world. Each call of the outside is logged in a trace, so
  that the order of the effects can be stated. An exception is the \<open>Inl\<close> branch of a
  sum; whatever raised it, the run stops there and keeps the trace it had.

  Python floats are modelled by \<open>real\<close>: rounding is not part of the model.
\<close>

subsection \<open>Data\<close>

datatype error =
    ValueError string
  | ZeroDivisionError
  | Raised string

text \<open>The namespace that argparse returns for the eleven declared arguments.\<close>

record args =
  score :: string
  src :: "string option"
  adv_src :: "string option"
  ref :: "string option"
  out :: "string option"
  adv_out :: "string option"
  src_lang :: "string option"
  tgt_lang :: "string option"
  scale :: real
  terse :: bool
  custom_scores_source :: "string list"

text \<open>The defaults of the \<^verbatim>\<open>add_argument\<close> calls of \<^verbatim>\<open>get_args\<close>.\<close>

definition default_args :: args where
  "default_args =
     \<lparr>score = ''chrf'', src = None, adv_src = None, ref = None, out = None,
      adv_out = None, src_lang = None, tgt_lang = None, scale = 100, terse = False,
      custom_scores_source = []\<rparr>"

text \<open>A parser is the list of the option strings declared on it.\<close>

type_synonym parser = "string list"

definition base_parser :: parser where
  "base_parser =
     [''--score'', ''--src'', ''--adv-src'', ''--ref'', ''--out'', ''--adv-out'',
      ''--src-lang'', ''--tgt-lang'', ''--scale'', ''--terse'',
      ''--custom-scores-source'']"

text \<open>
  A scorer class offers the static hook \<^verbatim>\<open>add_args(parser)\<close>; a scorer instance has a
  name and the two scoring methods. The registry \<^verbatim>\<open>scorers.scorers\<close> is a dictionary
  from score names to classes.
\<close>

record scorer_class =
  add_args :: "parser \<Rightarrow> error + parser"

record scorer =
  scorer_name :: string
  scorer_score :: "string list \<Rightarrow> string list \<Rightarrow> string option \<Rightarrow> error + real list"
  scorer_rd_score ::
    "string list \<Rightarrow> string list \<Rightarrow> string list \<Rightarrow> string option \<Rightarrow> error + real list"

type_synonym registry = "string \<rightharpoonup> scorer_class"

record world =
  parse_known_args :: "parser \<Rightarrow> error + args"
  parse_args :: "parser \<Rightarrow> error + args"
  isfile :: "string \<Rightarrow> bool"
  abspath :: "string \<Rightarrow> string"
  read_custom_scorers_source :: "string \<Rightarrow> registry \<Rightarrow> error + registry"
  get_scorer_class :: "string \<Rightarrow> registry \<Rightarrow> error + scorer_class"
  scorer_from_args :: "args \<Rightarrow> registry \<Rightarrow> error + scorer"
  loadtxt :: "string option \<Rightarrow> error + string list"
  stats :: "real list \<Rightarrow> error + real \<times> real \<times> real \<times> real"

text \<open>
  A printed line is an f-string: literal text and fields \<^verbatim>\<open>{v:.kf}\<close>, kept as the
  value \<open>v\<close> and the number \<open>k\<close> of decimals.
\<close>

datatype piece = Lit string | Fixed nat real

type_synonym line = "piece list"

datatype event =
    ParseKnownArgs
  | IsFile string
  | ReadCustomScorersSource string
  | GetScorerClass string
  | AddArgs
  | ParseArgs
  | ScorerFromArgs
  | LoadTxt "string option"
  | Score
  | RdScore
  | Stats "real list"
  | Print line

record state =
  registry :: registry
  trace :: "event list"

subsection \<open>Sequencing with exceptions\<close>

type_synonym 'a prog = "state \<Rightarrow> (error + 'a) \<times> state"

definition ok :: "'a \<Rightarrow> 'a prog" where
  "ok x s = (Inr x, s)"

definition raise :: "error \<Rightarrow> 'a prog" where
  "raise e s = (Inl e, s)"

definition bnd :: "'a prog \<Rightarrow> ('a \<Rightarrow> 'b prog) \<Rightarrow> 'b prog" where
  "bnd m f s = (case m s of (Inl e, s') \<Rightarrow> (Inl e, s') | (Inr x, s') \<Rightarrow> f x s')"

text \<open>A call of the outside: the event is logged, then the call returns or raises.\<close>

definition call :: "event \<Rightarrow> error + 'a \<Rightarrow> 'a prog" where
  "call ev r s = (r, s\<lparr>trace := trace s @ [ev]\<rparr>)"

definition print_lines :: "line list \<Rightarrow> unit prog" where
  "print_lines ls s = (Inr (), s\<lparr>trace := trace s @ map Print ls\<rparr>)"

text \<open>
  \<^verbatim>\<open>scorers.read_custom_scorers_source(path)\<close> runs the file, which may register
  scorers: the registry changes.
\<close>

definition load_source :: "world \<Rightarrow> string \<Rightarrow> unit prog" where
  "load_source w path s =
     (case read_custom_scorers_source w path (registry s) of
        Inl e \<Rightarrow> (Inl e, s\<lparr>trace := trace s @ [ReadCustomScorersSource path]\<rparr>)
      | Inr reg \<Rightarrow>
          (Inr (), s\<lparr>registry := reg, trace := trace s @ [ReadCustomScorersSource path]\<rparr>))"

definition lookup_scorer_class :: "world \<Rightarrow> string \<Rightarrow> scorer_class prog" where
  "lookup_scorer_class w name s =
     (get_scorer_class w name (registry s), s\<lparr>trace := trace s @ [GetScorerClass name]\<rparr>)"

definition make_scorer :: "world \<Rightarrow> args \<Rightarrow> scorer prog" where
  "make_scorer w a s =
     (scorer_from_args w a (registry s), s\<lparr>trace := trace s @ [ScorerFromArgs]\<rparr>)"

subsection \<open>Messages\<close>

definition digit_char :: "nat \<Rightarrow> char" where
  "digit_char d = ''0123456789'' ! d"

fun str_nat :: "nat \<Rightarrow> string" where
  "str_nat n =
     (if n < 10 then [digit_char n] else str_nat (n div 10) @ [digit_char (n mod 10)])"

declare str_nat.simps [simp del]

definition msg_no_side :: string where
  "msg_no_side =
     ''You need to specify at lease `--src` and `--adv-src` '' @
     ''(for source side evaluation) OR `--ref`, `--out` and `--adv-out`'' @
     '' (for target side evaluation)''"

definition msg_no_file :: "string \<Rightarrow> string \<Rightarrow> string" where
  \<open>msg_no_file name filename =
     ''Specified file for "'' @ name @ ''" ("'' @ filename @ ''")'' @ '' does not exist''\<close>

definition msg_no_custom :: "string \<Rightarrow> string" where
  \<open>msg_no_custom path = ''Can't find custom scorer source file "'' @ path @ ''"''\<close>

definition msg_mismatch :: "nat \<Rightarrow> nat \<Rightarrow> string" where
  "msg_mismatch n m =
     ''The number of samples in the source ('' @ str_nat n @ '') doesn't match '' @
     ''the number of samples in the target ('' @ str_nat m @ '')''"

subsection \<open>\<^verbatim>\<open>get_args\<close>\<close>

definition source_side_of :: "args \<Rightarrow> bool" where
  "source_side_of a = (src a \<noteq> None \<and> adv_src a \<noteq> None)"

definition target_side_of :: "args \<Rightarrow> bool" where
  "target_side_of a = (ref a \<noteq> None \<and> out a \<noteq> None \<and> adv_out a \<noteq> None)"

text \<open>\<^verbatim>\<open>getattr(args, name, None)\<close> on the namespace.\<close>

definition getattr :: "args \<Rightarrow> string \<Rightarrow> string option" where
  "getattr a name =
     (if name = ''src'' then src a
      else if name = ''adv_src'' then adv_src a
      else if name = ''ref'' then ref a
      else if name = ''out'' then out a
      else if name = ''adv_out'' then adv_out a
      else None)"

definition path_names :: "string list" where
  "path_names = [''src'', ''adv_src'', ''ref'', ''out'', ''adv_out'']"

text \<open>The loop \<^verbatim>\<open>for name in ["src", "adv_src", "ref", "out", "adv_out"]\<close>.\<close>

fun check_files :: "world \<Rightarrow> args \<Rightarrow> string list \<Rightarrow> unit prog" where
  "check_files w a [] = ok ()"
| "check_files w a (name # names) =
     (case getattr a name of
        None \<Rightarrow> check_files w a names
      | Some filename \<Rightarrow>
          bnd (call (IsFile filename) (Inr (isfile w filename))) (\<lambda>found.
            if \<not> found then raise (ValueError (msg_no_file name filename))
            else check_files w a names))"

text \<open>The loop \<^verbatim>\<open>for source_file in args.custom_scores_source\<close>.\<close>

fun load_custom_scorers :: "world \<Rightarrow> string list \<Rightarrow> unit prog" where
  "load_custom_scorers w [] = ok ()"
| "load_custom_scorers w (source_file # rest) =
     (let path = abspath w source_file in
      bnd (call (IsFile path) (Inr (isfile w path))) (\<lambda>found.
        if \<not> found then raise (ValueError (msg_no_custom path))
        else bnd (load_source w path) (\<lambda>_. load_custom_scorers w rest)))"

definition get_args :: "world \<Rightarrow> (args \<times> bool \<times> bool) prog" where
  "get_args w =
     bnd (call ParseKnownArgs (parse_known_args w base_parser)) (\<lambda>a.
       let source_side = source_side_of a;
           target_side = target_side_of a
       in if \<not> (source_side \<or> target_side) then raise (ValueError msg_no_side)
          else
            bnd (check_files w a path_names) (\<lambda>_.
            bnd (load_custom_scorers w (custom_scores_source a)) (\<lambda>_.
            bnd (lookup_scorer_class w (score a)) (\<lambda>scorer_class.
            bnd (call AddArgs (add_args scorer_class base_parser)) (\<lambda>parser.
            bnd (call ParseArgs (parse_args w parser)) (\<lambda>a'.
            ok (a', source_side, target_side)))))))"

subsection \<open>\<^verbatim>\<open>main\<close>\<close>

definition dashes :: line where
  "dashes = [Lit (replicate 80 CHR ''-'')]"

text \<open>
  The three prints of the mean, the standard deviation and the percentiles, which
  the two sides share.
\<close>

definition stats_lines :: "real \<Rightarrow> real \<Rightarrow> real \<Rightarrow> real \<Rightarrow> real \<Rightarrow> line list" where
  "stats_lines sc avg std p5 p95 =
     [[Lit (''Mean:'' @ [CHR 0x09]), Fixed 3 (avg * sc)],
      [Lit (''Std:'' @ [CHR 0x09]), Fixed 3 (std * sc)],
      [Lit (''5%-95%:'' @ [CHR 0x09]), Fixed 3 (p5 * sc), Lit ''-'', Fixed 3 (p95 * sc)]]"

definition source_report :: "args \<Rightarrow> scorer \<Rightarrow> real \<times> real \<times> real \<times> real \<Rightarrow> line list" where
  "source_report a scorer st =
     (case st of (s_src_avg, s_src_std, s_src_5, s_src_95) \<Rightarrow>
        if terse a then [[Fixed 3 (s_src_avg * scale a)]]
        else [Lit (''Source side preservation ('' @ scorer_name scorer @ ''):'')]
             # stats_lines (scale a) s_src_avg s_src_std s_src_5 s_src_95)"

definition target_report ::
  "args \<Rightarrow> scorer \<Rightarrow> bool \<Rightarrow> real \<times> real \<times> real \<times> real \<Rightarrow> line list" where
  "target_report a scorer source_side st =
     (case st of (d_tgt_avg, d_tgt_std, d_tgt_5, d_tgt_95) \<Rightarrow>
        if terse a then [[Fixed 3 (d_tgt_avg * scale a)]]
        else (if source_side then [dashes] else []) @
             [Lit (''Target side degradation '' @
                   ''(relative decrease in '' @ scorer_name scorer @ ''):'')]
             # stats_lines (scale a) d_tgt_avg d_tgt_std d_tgt_5 d_tgt_95)"

text \<open>The block under \<^verbatim>\<open>if source_side:\<close>; it leaves \<open>N\<close> and \<open>s_src\<close>.\<close>

definition source_side_eval :: "world \<Rightarrow> args \<Rightarrow> scorer \<Rightarrow> (nat \<times> real list) prog" where
  "source_side_eval w a scorer =
     bnd (call (LoadTxt (adv_src a)) (loadtxt w (adv_src a))) (\<lambda>adv_src_lines.
     bnd (call (LoadTxt (src a)) (loadtxt w (src a))) (\<lambda>src_lines.
     bnd (call Score (scorer_score scorer adv_src_lines src_lines (src_lang a))) (\<lambda>s_src.
     let N = length s_src in
     bnd (call (Stats s_src) (stats w s_src)) (\<lambda>st.
     bnd (print_lines (source_report a scorer st)) (\<lambda>_.
     ok (N, s_src))))))"

text \<open>
  The block under \<^verbatim>\<open>if target_side:\<close>. \<open>N\<close> is \<open>None\<close> when the source side did not
  run. It leaves \<open>N\<close> and \<open>d_tgt\<close>.
\<close>

definition target_side_eval ::
  "world \<Rightarrow> args \<Rightarrow> scorer \<Rightarrow> bool \<Rightarrow> nat option \<Rightarrow> (nat \<times> real list) prog" where
  "target_side_eval w a scorer source_side N =
     bnd (call (LoadTxt (adv_out a)) (loadtxt w (adv_out a))) (\<lambda>adv_out_lines.
     bnd (call (LoadTxt (out a)) (loadtxt w (out a))) (\<lambda>out_lines.
     bnd (call (LoadTxt (ref a)) (loadtxt w (ref a))) (\<lambda>ref_lines.
     bnd (call RdScore
            (scorer_rd_score scorer adv_out_lines out_lines ref_lines (tgt_lang a))) (\<lambda>d_tgt.
     bnd (case N of
            None \<Rightarrow> ok (length d_tgt)
          | Some n \<Rightarrow>
              if length d_tgt \<noteq> n then raise (ValueError (msg_mismatch n (length d_tgt)))
              else ok n) (\<lambda>N'.
     bnd (call (Stats d_tgt) (stats w d_tgt)) (\<lambda>st.
     bnd (print_lines (target_report a scorer source_side st)) (\<lambda>_.
     ok (N', d_tgt))))))))"

text \<open>\<^verbatim>\<open>[float(s + d > 1) for s, d in zip(s_src, d_tgt)]\<close>\<close>

definition success :: "real list \<Rightarrow> real list \<Rightarrow> real list" where
  "success s_src d_tgt = map (\<lambda>(s, d). if s + d > 1 then 1 else 0) (zip s_src d_tgt)"

text \<open>\<^verbatim>\<open>sum(success) / N\<close>, for \<open>N\<close> other than 0.\<close>

definition success_fraction :: "real list \<Rightarrow> real list \<Rightarrow> nat \<Rightarrow> real" where
  "success_fraction s_src d_tgt N = sum_list (success s_src d_tgt) / real N"

definition success_report :: "args \<Rightarrow> real \<Rightarrow> line list" where
  "success_report a fraction =
     (if terse a then [[Fixed 3 (fraction * 100)]]
      else [dashes,
            [Lit ''Success percentage: '', Fixed 2 (fraction * 100), Lit '' %'']])"

text \<open>The block under \<^verbatim>\<open>if target_side and source_side:\<close>.\<close>

definition both_sided :: "args \<Rightarrow> real list \<Rightarrow> real list \<Rightarrow> nat \<Rightarrow> unit prog" where
  "both_sided a s_src d_tgt N =
     (if N = 0 then raise ZeroDivisionError
      else print_lines (success_report a (success_fraction s_src d_tgt N)))"

text \<open>
  \<^verbatim>\<open>main\<close>. The variables \<open>s_src\<close> and \<open>d_tgt\<close> are unbound in Python when their side
  did not run; they are read under \<^verbatim>\<open>target_side and source_side\<close> only, and stand
  as \<open>[]\<close> until they are bound. \<open>N\<close> starts as \<open>None\<close>; dividing by \<open>None\<close> would
  be a \<^verbatim>\<open>TypeError\<close>.
\<close>

definition main :: "world \<Rightarrow> unit prog" where
  "main w =
     bnd (get_args w) (\<lambda>(a, source_side, target_side).
     bnd (make_scorer w a) (\<lambda>scorer.
     bnd (if source_side
          then bnd (source_side_eval w a scorer) (\<lambda>(N, s_src). ok (Some N, s_src))
          else ok (None, [])) (\<lambda>(N, s_src).
     bnd (if target_side
          then bnd (target_side_eval w a scorer source_side N)
                 (\<lambda>(N', d_tgt). ok (Some N', d_tgt))
          else ok (N, [])) (\<lambda>(N', d_tgt).
     if target_side \<and> source_side
     then (case N' of
             None \<Rightarrow> raise (Raised ''TypeError'')
           | Some n \<Rightarrow> both_sided a s_src d_tgt n)
     else ok ()))))"

subsection \<open>Observations on a run\<close>

text \<open>What a trace shows on standard output.\<close>

definition printed :: "event list \<Rightarrow> line list" where
  "printed tr = concat (map (\<lambda>ev. case ev of Print l \<Rightarrow> [l] | _ \<Rightarrow> []) tr)"

text \<open>The numbers of the printed lines, in the order of printing.\<close>

definition numbers :: "line list \<Rightarrow> real list" where
  "numbers ls = concat (map (\<lambda>p. case p of Fixed k v \<Rightarrow> [v] | Lit t \<Rightarrow> []) (concat ls))"

text \<open>
  The registry after the custom sources \<open>files\<close> have been read in order, from the
  registry \<open>reg\<close>.
\<close>

fun registry_after :: "world \<Rightarrow> string list \<Rightarrow> registry \<Rightarrow> error + registry" where
  "registry_after w [] reg = Inr reg"
| "registry_after w (source_file # rest) reg =
     (case read_custom_scorers_source w (abspath w source_file) reg of
        Inl e \<Rightarrow> Inl e
      | Inr reg' \<Rightarrow> registry_after w rest reg')"

text \<open>The events of reading the custom sources \<open>files\<close>, when each is found and read.\<close>

definition custom_events :: "world \<Rightarrow> string list \<Rightarrow> event list" where
  "custom_events w files =
     concat (map (\<lambda>source_file.
        [IsFile (abspath w source_file), ReadCustomScorersSource (abspath w source_file)]) files)"

text \<open>The paths among \<open>names\<close> that the namespace provides.\<close>

definition provided :: "args \<Rightarrow> string list \<Rightarrow> string list" where
  "provided a names = List.map_filter (getattr a) names"

text \<open>What \<^verbatim>\<open>get_args\<close> does after the loop over the path arguments.\<close>

definition after_checks :: "world \<Rightarrow> args \<Rightarrow> (args \<times> bool \<times> bool) prog" where
  "after_checks w a =
            bnd (load_custom_scorers w (custom_scores_source a)) (\<lambda>_.
            bnd (lookup_scorer_class w (score a)) (\<lambda>scorer_class.
            bnd (call AddArgs (add_args scorer_class base_parser)) (\<lambda>parser.
            bnd (call ParseArgs (parse_args w parser)) (\<lambda>a'.
            ok (a', source_side_of a, target_side_of a)))))"

text \<open>The events of the two sides, when every call returns.\<close>

definition source_events :: "args \<Rightarrow> scorer \<Rightarrow> real list \<Rightarrow> real \<times> real \<times> real \<times> real \<Rightarrow> event list" where
  "source_events a scorer s_src st =
     [LoadTxt (adv_src a), LoadTxt (src a), Score, Stats s_src]
     @ map Print (source_report a scorer st)"

definition target_events ::
  "args \<Rightarrow> scorer \<Rightarrow> bool \<Rightarrow> real list \<Rightarrow> real \<times> real \<times> real \<times> real \<Rightarrow> event list" where
  "target_events a scorer source_side d_tgt st =
     [LoadTxt (adv_out a), LoadTxt (out a), LoadTxt (ref a), RdScore, Stats d_tgt]
     @ map Print (target_report a scorer source_side st)"

subsection \<open>An example world\<close>

text \<open>
  A small world on which the theorems are instantiated. Both parses return the
  namespace \<open>a\<close>; the file system holds the files of \<open>example_files\<close>; the registry
  starts with the scorer \<^verbatim>\<open>chrf\<close>, and reading a custom source registers the scorer
  \<^verbatim>\<open>mine\<close>. The example scorer gives every sample the score \<open>3/4\<close> and the relative
  decrease \<open>1/2\<close>, so the statistics are those of a constant sequence: the mean and
  the percentiles are its value, the standard deviation is 0.
\<close>

definition example_class :: "string list \<Rightarrow> scorer_class" where
  "example_class options = \<lparr>add_args = (\<lambda>parser. Inr (parser @ options))\<rparr>"

definition example_scorer :: scorer where
  "example_scorer =
     \<lparr>scorer_name = ''chrf'',
      scorer_score = (\<lambda>hyps refs lang. Inr (map (\<lambda>_. 3 / 4) hyps)),
      scorer_rd_score = (\<lambda>adv_out out ref lang. Inr (map (\<lambda>_. 1 / 2) adv_out))\<rparr>"

definition example_stats :: "real list \<Rightarrow> error + real \<times> real \<times> real \<times> real" where
  "example_stats xs =
     (if xs = [] then Inl (Raised ''EmptyInputError'') else Inr (hd xs, 0, hd xs, hd xs))"

definition example_files :: "(string \<times> string list) list" where
  "example_files =
     [(''src'', [''the cat sat'', ''a b c'']),
      (''adv'', [''the cat sit'', ''a b d'']),
      (''ref'', [''le chat'', ''x y'']),
      (''out'', [''le chat'', ''x z'']),
      (''adv_out'', [''le chien'', ''x w'']),
      (''short'', [''le chien'']),
      (''mine.py'', [])]"

definition example_world :: "args \<Rightarrow> world" where
  "example_world a =
     \<lparr>parse_known_args = (\<lambda>parser. Inr a),
      parse_args = (\<lambda>parser. Inr a),
      isfile = (\<lambda>p. map_of example_files p \<noteq> None),
      abspath = (\<lambda>p. p),
      read_custom_scorers_source =
        (\<lambda>path reg. Inr (reg(''mine'' \<mapsto> example_class [''--mine-option'']))),
      get_scorer_class =
        (\<lambda>name reg. case reg name of None \<Rightarrow> Inl (Raised ''unknown scorer'') | Some c \<Rightarrow> Inr c),
      scorer_from_args =
        (\<lambda>a reg. case reg (score a) of
           None \<Rightarrow> Inl (Raised ''unknown scorer'')
         | Some c \<Rightarrow> Inr example_scorer),
      loadtxt =
        (\<lambda>p. case p of
           None \<Rightarrow> Inl (Raised ''TypeError'')
         | Some f \<Rightarrow>
             (case map_of example_files f of
                None \<Rightarrow> Inl (Raised ''FileNotFoundError'')
              | Some ls \<Rightarrow> Inr ls)),
      stats = example_stats\<rparr>"

definition example_init :: state where
  "example_init = \<lparr>registry = [''chrf'' \<mapsto> example_class []], trace = []\<rparr>"

definition both_args :: args where
  "both_args =
     default_args\<lparr>src := Some ''src'', adv_src := Some ''adv'', ref := Some ''ref'',
       out := Some ''out'', adv_out := Some ''adv_out''\<rparr>"

definition terse_args :: args where
  "terse_args = both_args\<lparr>scale := 1, terse := True\<rparr>"

section \<open>Lemmas\<close>

subsection \<open>Sequencing\<close>

lemma bnd_ok [simp]: "bnd (ok x) f s = f x s"
  by (simp add: bnd_def ok_def)

lemma bnd_raise [simp]: "bnd (raise e) f s = (Inl e, s)"
  by (simp add: bnd_def raise_def)

lemma bnd_call_Inr [simp]: "bnd (call ev (Inr x)) f s = f x (s\<lparr>trace := trace s @ [ev]\<rparr>)"
  by (simp add: bnd_def call_def)

lemma bnd_call_Inl [simp]: "bnd (call ev (Inl e)) f s = (Inl e, s\<lparr>trace := trace s @ [ev]\<rparr>)"
  by (simp add: bnd_def call_def)

lemma bnd_print_lines [simp]:
  "bnd (print_lines ls) f s = f () (s\<lparr>trace := trace s @ map Print ls\<rparr>)"
  by (simp add: bnd_def print_lines_def)

lemma bnd_Inl: "m s = (Inl e, s') \<Longrightarrow> bnd m f s = (Inl e, s')"
  by (simp add: bnd_def)

lemma bnd_Inr: "m s = (Inr x, s') \<Longrightarrow> bnd m f s = f x s'"
  by (simp add: bnd_def)

lemma bnd_load_source_Inr:
  "read_custom_scorers_source w path (registry s) = Inr reg \<Longrightarrow>
   bnd (load_source w path) f s =
     f () (s\<lparr>registry := reg, trace := trace s @ [ReadCustomScorersSource path]\<rparr>)"
  by (simp add: bnd_def load_source_def)

lemma bnd_load_source_Inl:
  "read_custom_scorers_source w path (registry s) = Inl e \<Longrightarrow>
   bnd (load_source w path) f s =
     (Inl e, s\<lparr>trace := trace s @ [ReadCustomScorersSource path]\<rparr>)"
  by (simp add: bnd_def load_source_def)

lemma bnd_lookup_scorer_class_Inr:
  "get_scorer_class w name (registry s) = Inr c \<Longrightarrow>
   bnd (lookup_scorer_class w name) f s = f c (s\<lparr>trace := trace s @ [GetScorerClass name]\<rparr>)"
  by (simp add: bnd_def lookup_scorer_class_def)

lemma bnd_lookup_scorer_class_Inl:
  "get_scorer_class w name (registry s) = Inl e \<Longrightarrow>
   bnd (lookup_scorer_class w name) f s = (Inl e, s\<lparr>trace := trace s @ [GetScorerClass name]\<rparr>)"
  by (simp add: bnd_def lookup_scorer_class_def)

lemma bnd_make_scorer_Inr:
  "scorer_from_args w a (registry s) = Inr sc \<Longrightarrow>
   bnd (make_scorer w a) f s = f sc (s\<lparr>trace := trace s @ [ScorerFromArgs]\<rparr>)"
  by (simp add: bnd_def make_scorer_def)

lemma bnd_make_scorer_Inl:
  "scorer_from_args w a (registry s) = Inl e \<Longrightarrow>
   bnd (make_scorer w a) f s = (Inl e, s\<lparr>trace := trace s @ [ScorerFromArgs]\<rparr>)"
  by (simp add: bnd_def make_scorer_def)

subsection \<open>The loop over the path arguments\<close>

lemma provided_Nil [simp]: "provided a [] = []"
  by (simp add: provided_def List.map_filter_simps)

lemma provided_Cons:
  "provided a (n # ns) = (case getattr a n of None \<Rightarrow> provided a ns | Some f \<Rightarrow> f # provided a ns)"
  by (simp add: provided_def List.map_filter_simps split: option.splits)

lemma check_files_ok:
  "\<forall>n\<in>set names. \<forall>f. getattr a n = Some f \<longrightarrow> isfile w f \<Longrightarrow>
   check_files w a names s = (Inr (), s\<lparr>trace := trace s @ map IsFile (provided a names)\<rparr>)"
proof (induction names arbitrary: s)
  case Nil
  then show ?case by (simp add: ok_def)
next
  case (Cons name names)
  then show ?case
    by (cases "getattr a name") (simp_all add: provided_Cons)
qed

lemma check_files_append:
  "check_files w a (xs @ ys) s = bnd (check_files w a xs) (\<lambda>_. check_files w a ys) s"
proof (induction xs arbitrary: s)
  case Nil
  show ?case by simp
next
  case (Cons x xs)
  show ?case
  proof (cases "getattr a x")
    case None
    then show ?thesis using Cons [of s] by (simp add: bnd_def)
  next
    case (Some f)
    then show ?thesis
      using Cons [of "s\<lparr>trace := trace s @ [IsFile f]\<rparr>"] by (simp add: bnd_def raise_def call_def)
  qed
qed

lemma check_files_missing:
  assumes "\<forall>n\<in>set pre. \<forall>f. getattr a n = Some f \<longrightarrow> isfile w f"
    and "getattr a name = Some filename" and "\<not> isfile w filename"
  shows "check_files w a (pre @ name # post) s =
     (Inl (ValueError (msg_no_file name filename)),
      s\<lparr>trace := trace s @ map IsFile (provided a pre @ [filename])\<rparr>)"
  using assms by (simp add: check_files_append bnd_Inr [OF check_files_ok] raise_def)

lemma check_files_cases:
  "(\<exists>pre name post filename. names = pre @ name # post
      \<and> (\<forall>n\<in>set pre. \<forall>f. getattr a n = Some f \<longrightarrow> isfile w f)
      \<and> getattr a name = Some filename \<and> \<not> isfile w filename
      \<and> check_files w a names s =
          (Inl (ValueError (msg_no_file name filename)),
           s\<lparr>trace := trace s @ map IsFile (provided a pre @ [filename])\<rparr>))
   \<or> ((\<forall>n\<in>set names. \<forall>f. getattr a n = Some f \<longrightarrow> isfile w f)
      \<and> check_files w a names s =
          (Inr (), s\<lparr>trace := trace s @ map IsFile (provided a names)\<rparr>))"
proof (cases "\<forall>n\<in>set names. \<forall>f. getattr a n = Some f \<longrightarrow> isfile w f")
  case True
  then show ?thesis using check_files_ok by blast
next
  case False
  then have "\<exists>n\<in>set names. \<not> (\<forall>f. getattr a n = Some f \<longrightarrow> isfile w f)" by blast
  then obtain pre name post where split: "names = pre @ name # post"
    and bad: "\<not> (\<forall>f. getattr a name = Some f \<longrightarrow> isfile w f)"
    and good: "\<forall>n\<in>set pre. \<not> \<not> (\<forall>f. getattr a n = Some f \<longrightarrow> isfile w f)"
    using split_list_first_prop [of names "\<lambda>n. \<not> (\<forall>f. getattr a n = Some f \<longrightarrow> isfile w f)"]
    by blast
  from bad obtain filename where f: "getattr a name = Some filename" "\<not> isfile w filename"
    by blast
  from good have good': "\<forall>n\<in>set pre. \<forall>f. getattr a n = Some f \<longrightarrow> isfile w f" by blast
  show ?thesis
    using split good' f check_files_missing [OF good' f, of post s] by blast
qed

subsection \<open>The loop over the custom sources\<close>

lemma custom_events_Nil [simp]: "custom_events w [] = []"
  by (simp add: custom_events_def)

lemma custom_events_Cons:
  "custom_events w (f # fs) =
     IsFile (abspath w f) # ReadCustomScorersSource (abspath w f) # custom_events w fs"
  by (simp add: custom_events_def)

lemma load_custom_scorers_cases:
  "(\<exists>e reg tr. load_custom_scorers w files s = (Inl e, s\<lparr>registry := reg, trace := trace s @ tr\<rparr>)
       \<and> (set tr \<subseteq> range IsFile \<union> range ReadCustomScorersSource))
   \<or> (\<exists>reg. registry_after w files (registry s) = Inr reg
       \<and> (\<forall>f\<in>set files. isfile w (abspath w f))
       \<and> load_custom_scorers w files s =
           (Inr (), s\<lparr>registry := reg, trace := trace s @ custom_events w files\<rparr>))"
proof (induction files arbitrary: s)
  case Nil
  show ?case by (simp add: ok_def)
next
  case (Cons f fs)
  let ?p = "abspath w f"
  let ?s1 = "s\<lparr>trace := trace s @ [IsFile ?p]\<rparr>"
  show ?case
  proof (cases "isfile w ?p")
    case False
    then have "load_custom_scorers w (f # fs) s =
        (Inl (ValueError (msg_no_custom ?p)), s\<lparr>registry := registry s, trace := trace s @ [IsFile ?p]\<rparr>)"
      by (simp add: raise_def Let_def)
    moreover have "(set [IsFile ?p] \<subseteq> range IsFile \<union> range ReadCustomScorersSource)" by auto
    ultimately show ?thesis by blast
  next
    case True
    show ?thesis
    proof (cases "read_custom_scorers_source w ?p (registry s)")
      case (Inl e)
      then have "load_custom_scorers w (f # fs) s =
          (Inl e, s\<lparr>registry := registry s, trace := trace s @ [IsFile ?p, ReadCustomScorersSource ?p]\<rparr>)"
        using True by (simp add: bnd_load_source_Inl Let_def)
      moreover have "(set [IsFile ?p, ReadCustomScorersSource ?p] \<subseteq> range IsFile \<union> range ReadCustomScorersSource)" by auto
      ultimately show ?thesis by blast
    next
      case (Inr reg1)
      let ?s2 = "s\<lparr>registry := reg1, trace := trace s @ [IsFile ?p, ReadCustomScorersSource ?p]\<rparr>"
      have step: "load_custom_scorers w (f # fs) s = load_custom_scorers w fs ?s2"
        using True Inr by (simp add: bnd_load_source_Inr Let_def)
      from Cons [of ?s2] show ?thesis
      proof
        assume "\<exists>e reg tr. load_custom_scorers w fs ?s2 = (Inl e, ?s2\<lparr>registry := reg, trace := trace ?s2 @ tr\<rparr>) \<and> (set tr \<subseteq> range IsFile \<union> range ReadCustomScorersSource)"
        then obtain e reg tr where
          r: "load_custom_scorers w fs ?s2 = (Inl e, ?s2\<lparr>registry := reg, trace := trace ?s2 @ tr\<rparr>)"
          and l: "(set tr \<subseteq> range IsFile \<union> range ReadCustomScorersSource)" by blast
        have "load_custom_scorers w (f # fs) s =
            (Inl e, s\<lparr>registry := reg, trace := trace s @ (IsFile ?p # ReadCustomScorersSource ?p # tr)\<rparr>)"
          using step r by simp
        moreover have "(set (IsFile ?p # ReadCustomScorersSource ?p # tr) \<subseteq> range IsFile \<union> range ReadCustomScorersSource)"
          using l by auto
        ultimately show ?thesis by blast
      next
        assume "\<exists>reg. registry_after w fs (registry ?s2) = Inr reg
           \<and> (\<forall>f\<in>set fs. isfile w (abspath w f))
           \<and> load_custom_scorers w fs ?s2 = (Inr (), ?s2\<lparr>registry := reg, trace := trace ?s2 @ custom_events w fs\<rparr>)"
        then obtain reg where ra: "registry_after w fs (registry ?s2) = Inr reg"
          and ex: "\<forall>f\<in>set fs. isfile w (abspath w f)"
          and r: "load_custom_scorers w fs ?s2 = (Inr (), ?s2\<lparr>registry := reg, trace := trace ?s2 @ custom_events w fs\<rparr>)"
          by blast
        have "registry_after w (f # fs) (registry s) = Inr reg"
          using ra Inr by simp
        moreover have "\<forall>f'\<in>set (f # fs). isfile w (abspath w f')" using ex True by simp
        moreover have "load_custom_scorers w (f # fs) s =
            (Inr (), s\<lparr>registry := reg, trace := trace s @ custom_events w (f # fs)\<rparr>)"
          using step r by (simp add: custom_events_Cons)
        ultimately show ?thesis by blast
      qed
    qed
  qed
qed

subsection \<open>get_args\<close>

lemma get_args_parse_fails:
  "parse_known_args w base_parser = Inl e \<Longrightarrow>
   get_args w s = (Inl e, s\<lparr>trace := trace s @ [ParseKnownArgs]\<rparr>)"
  by (simp add: get_args_def)

lemma get_args_no_side:
  "parse_known_args w base_parser = Inr a \<Longrightarrow> \<not> source_side_of a \<Longrightarrow> \<not> target_side_of a \<Longrightarrow>
   get_args w s = (Inl (ValueError msg_no_side), s\<lparr>trace := trace s @ [ParseKnownArgs]\<rparr>)"
  by (simp add: get_args_def raise_def)

lemma get_args_side:
  "parse_known_args w base_parser = Inr a \<Longrightarrow> source_side_of a \<or> target_side_of a \<Longrightarrow>
   get_args w s =
     bnd (check_files w a path_names) (\<lambda>_. after_checks w a)
       (s\<lparr>trace := trace s @ [ParseKnownArgs]\<rparr>)"
  by (auto simp add: get_args_def after_checks_def)

lemma get_args_missing_file:
  assumes "parse_known_args w base_parser = Inr a" and "source_side_of a \<or> target_side_of a"
    and "path_names = pre @ name # post"
    and "\<forall>n\<in>set pre. \<forall>f. getattr a n = Some f \<longrightarrow> isfile w f"
    and "getattr a name = Some filename" and "\<not> isfile w filename"
  shows "get_args w s =
     (Inl (ValueError (msg_no_file name filename)),
      s\<lparr>trace := trace s @ ParseKnownArgs # map IsFile (provided a pre @ [filename])\<rparr>)"
proof -
  let ?s1 = "s\<lparr>trace := trace s @ [ParseKnownArgs]\<rparr>"
  have "bnd (check_files w a (pre @ name # post)) (\<lambda>_. after_checks w a) ?s1 =
      (Inl (ValueError (msg_no_file name filename)),
       ?s1\<lparr>trace := trace ?s1 @ map IsFile (provided a pre @ [filename])\<rparr>)"
    by (rule bnd_Inl [where m = "check_files w a (pre @ name # post)" and s = ?s1,
          OF check_files_missing [OF assms(4-6)]])
  then show ?thesis
    using assms(3) get_args_side [OF assms(1,2), of s] by simp
qed

lemma after_checks_cases:
  "(\<exists>e reg tr. after_checks w a s = (Inl e, s\<lparr>registry := reg, trace := trace s @ tr\<rparr>)
      \<and> set tr \<subseteq> range IsFile \<union> range ReadCustomScorersSource \<union> range GetScorerClass \<union> {AddArgs})
   \<or> (\<exists>reg cls parser. registry_after w (custom_scores_source a) (registry s) = Inr reg
      \<and> (\<forall>f\<in>set (custom_scores_source a). isfile w (abspath w f))
      \<and> get_scorer_class w (score a) reg = Inr cls
      \<and> add_args cls base_parser = Inr parser
      \<and> after_checks w a s =
          (map_sum id (\<lambda>a'. (a', source_side_of a, target_side_of a)) (parse_args w parser),
           s\<lparr>registry := reg,
             trace := trace s @ custom_events w (custom_scores_source a)
                @ [GetScorerClass (score a), AddArgs, ParseArgs]\<rparr>))"
  using load_custom_scorers_cases [of w "custom_scores_source a" s]
proof
  assume "\<exists>e reg tr. load_custom_scorers w (custom_scores_source a) s =
      (Inl e, s\<lparr>registry := reg, trace := trace s @ tr\<rparr>)
      \<and> set tr \<subseteq> range IsFile \<union> range ReadCustomScorersSource"
  then obtain e reg tr where
    r: "load_custom_scorers w (custom_scores_source a) s = (Inl e, s\<lparr>registry := reg, trace := trace s @ tr\<rparr>)"
    and l: "set tr \<subseteq> range IsFile \<union> range ReadCustomScorersSource" by blast
  have "after_checks w a s = (Inl e, s\<lparr>registry := reg, trace := trace s @ tr\<rparr>)"
    unfolding after_checks_def
    by (rule bnd_Inl [where m = "load_custom_scorers w (custom_scores_source a)" and s = s, OF r])
  moreover have "set tr \<subseteq> range IsFile \<union> range ReadCustomScorersSource \<union> range GetScorerClass \<union> {AddArgs}"
    using l by blast
  ultimately show ?thesis by blast
next
  let ?ev = "custom_events w (custom_scores_source a)"
  assume "\<exists>reg. registry_after w (custom_scores_source a) (registry s) = Inr reg
      \<and> (\<forall>f\<in>set (custom_scores_source a). isfile w (abspath w f))
      \<and> load_custom_scorers w (custom_scores_source a) s =
          (Inr (), s\<lparr>registry := reg, trace := trace s @ ?ev\<rparr>)"
  then obtain reg where ra: "registry_after w (custom_scores_source a) (registry s) = Inr reg"
    and ex: "\<forall>f\<in>set (custom_scores_source a). isfile w (abspath w f)"
    and r: "load_custom_scorers w (custom_scores_source a) s =
          (Inr (), s\<lparr>registry := reg, trace := trace s @ ?ev\<rparr>)" by blast
  let ?s1 = "s\<lparr>registry := reg, trace := trace s @ ?ev\<rparr>"
  have reg1: "registry ?s1 = reg" by simp
  note r' = bnd_Inr [where m = "load_custom_scorers w (custom_scores_source a)" and s = s, OF r]
  show ?thesis
  proof (cases "get_scorer_class w (score a) reg")
    case (Inl e)
    have "after_checks w a s =
        (Inl e, s\<lparr>registry := reg, trace := trace s @ (?ev @ [GetScorerClass (score a)])\<rparr>)"
      unfolding after_checks_def
      by (simp add: r' bnd_lookup_scorer_class_Inl [of w "score a" ?s1, unfolded reg1, OF Inl])
    moreover have "set (?ev @ [GetScorerClass (score a)])
        \<subseteq> range IsFile \<union> range ReadCustomScorersSource \<union> range GetScorerClass \<union> {AddArgs}"
      by (auto simp add: custom_events_def)
    ultimately show ?thesis by blast
  next
    case (Inr cls)
    note look = bnd_lookup_scorer_class_Inr [of w "score a" ?s1, unfolded reg1, OF Inr]
    show ?thesis
    proof (cases "add_args cls base_parser")
      case (Inl e)
      have "after_checks w a s =
          (Inl e, s\<lparr>registry := reg, trace := trace s @ (?ev @ [GetScorerClass (score a), AddArgs])\<rparr>)"
        unfolding after_checks_def
        by (simp add: r' look Inl)
      moreover have "set (?ev @ [GetScorerClass (score a), AddArgs])
          \<subseteq> range IsFile \<union> range ReadCustomScorersSource \<union> range GetScorerClass \<union> {AddArgs}"
        by (auto simp add: custom_events_def)
      ultimately show ?thesis by blast
    next
      case (Inr parser)
      have "after_checks w a s =
          (map_sum id (\<lambda>a'. (a', source_side_of a, target_side_of a)) (parse_args w parser),
           s\<lparr>registry := reg, trace := trace s @ ?ev @ [GetScorerClass (score a), AddArgs, ParseArgs]\<rparr>)"
        unfolding after_checks_def
        by (cases "parse_args w parser") (simp_all add: r' look Inr ok_def)
      then show ?thesis using ra ex \<open>get_scorer_class w (score a) reg = Inr cls\<close> Inr by blast
    qed
  qed
qed

lemma get_args_cases:
  "(\<exists>e reg tr. get_args w s = (Inl e, s\<lparr>registry := reg, trace := trace s @ tr\<rparr>)
      \<and> set tr \<subseteq> {ParseKnownArgs, AddArgs} \<union> range IsFile \<union> range ReadCustomScorersSource
            \<union> range GetScorerClass)
   \<or> (\<exists>a reg cls parser. parse_known_args w base_parser = Inr a
      \<and> (source_side_of a \<or> target_side_of a)
      \<and> (\<forall>n\<in>set path_names. \<forall>f. getattr a n = Some f \<longrightarrow> isfile w f)
      \<and> (\<forall>f\<in>set (custom_scores_source a). isfile w (abspath w f))
      \<and> registry_after w (custom_scores_source a) (registry s) = Inr reg
      \<and> get_scorer_class w (score a) reg = Inr cls
      \<and> add_args cls base_parser = Inr parser
      \<and> get_args w s =
          (map_sum id (\<lambda>a'. (a', source_side_of a, target_side_of a)) (parse_args w parser),
           s\<lparr>registry := reg,
             trace := trace s @ ParseKnownArgs # map IsFile (provided a path_names)
                @ custom_events w (custom_scores_source a)
                @ [GetScorerClass (score a), AddArgs, ParseArgs]\<rparr>))"
  (is "?early \<or> ?late")
proof (cases "parse_known_args w base_parser")
  case (Inl e)
  have "get_args w s = (Inl e, s\<lparr>registry := registry s, trace := trace s @ [ParseKnownArgs]\<rparr>)"
    using get_args_parse_fails [OF Inl] by simp
  then have ?early by (intro exI conjI) (assumption, simp)
  then show ?thesis ..
next
  case (Inr a)
  let ?s1 = "s\<lparr>trace := trace s @ [ParseKnownArgs]\<rparr>"
  show ?thesis
  proof (cases "source_side_of a \<or> target_side_of a")
    case False
    have "get_args w s =
        (Inl (ValueError msg_no_side), s\<lparr>registry := registry s, trace := trace s @ [ParseKnownArgs]\<rparr>)"
      using get_args_no_side [OF Inr] False by simp
    then have ?early by (intro exI conjI) (assumption, simp)
    then show ?thesis ..
  next
    case True
    note ga = get_args_side [OF Inr True, of s]
    from check_files_cases [of path_names a w ?s1] show ?thesis
    proof (elim disjE exE conjE)
      fix pre name post filename
      assume "check_files w a path_names ?s1 =
          (Inl (ValueError (msg_no_file name filename)),
           ?s1\<lparr>trace := trace ?s1 @ map IsFile (provided a pre @ [filename])\<rparr>)"
      then have "get_args w s =
          (Inl (ValueError (msg_no_file name filename)),
           s\<lparr>registry := registry s,
             trace := trace s @ (ParseKnownArgs # map IsFile (provided a pre @ [filename]))\<rparr>)"
        using ga by (simp add: bnd_def)
      moreover have "set (ParseKnownArgs # map IsFile (provided a pre @ [filename]))
          \<subseteq> {ParseKnownArgs, AddArgs} \<union> range IsFile \<union> range ReadCustomScorersSource
            \<union> range GetScorerClass" by auto
      ultimately have ?early by blast
      then show ?thesis ..
    next
      let ?s2 = "?s1\<lparr>trace := trace ?s1 @ map IsFile (provided a path_names)\<rparr>"
      assume files: "\<forall>n\<in>set path_names. \<forall>f. getattr a n = Some f \<longrightarrow> isfile w f"
        and "check_files w a path_names ?s1 = (Inr (), ?s2)"
      then have ga2: "get_args w s = after_checks w a ?s2"
        using ga by (simp add: bnd_def)
      from after_checks_cases [of w a ?s2] show ?thesis
      proof (elim disjE exE conjE)
        fix e reg tr
        assume "after_checks w a ?s2 = (Inl e, ?s2\<lparr>registry := reg, trace := trace ?s2 @ tr\<rparr>)"
          and tr: "set tr \<subseteq> range IsFile \<union> range ReadCustomScorersSource \<union> range GetScorerClass \<union> {AddArgs}"
        then have "get_args w s =
            (Inl e, s\<lparr>registry := reg,
               trace := trace s @ (ParseKnownArgs # map IsFile (provided a path_names) @ tr)\<rparr>)"
          using ga2 by simp
        moreover have "set (ParseKnownArgs # map IsFile (provided a path_names) @ tr)
            \<subseteq> {ParseKnownArgs, AddArgs} \<union> range IsFile \<union> range ReadCustomScorersSource
              \<union> range GetScorerClass" using tr by auto
        ultimately have ?early by blast
        then show ?thesis ..
      next
        fix reg cls parser
        assume "registry_after w (custom_scores_source a) (registry ?s2) = Inr reg"
          and "\<forall>f\<in>set (custom_scores_source a). isfile w (abspath w f)"
          and "get_scorer_class w (score a) reg = Inr cls"
          and "add_args cls base_parser = Inr parser"
          and "after_checks w a ?s2 =
            (map_sum id (\<lambda>a'. (a', source_side_of a, target_side_of a)) (parse_args w parser),
             ?s2\<lparr>registry := reg,
               trace := trace ?s2 @ custom_events w (custom_scores_source a)
                  @ [GetScorerClass (score a), AddArgs, ParseArgs]\<rparr>)"
        then have ?late
          using Inr True files ga2 by (intro exI [of _ a] exI [of _ reg] exI [of _ cls] exI [of _ parser]) simp
        then show ?thesis ..
      qed
    qed
  qed
qed

lemma get_args_Inr:
  assumes "get_args w s = (Inr (a', ss, ts), s')"
  shows "\<exists>a cls parser. parse_known_args w base_parser = Inr a
      \<and> ss = source_side_of a \<and> ts = target_side_of a \<and> (ss \<or> ts)
      \<and> (\<forall>n\<in>set path_names. \<forall>f. getattr a n = Some f \<longrightarrow> isfile w f)
      \<and> (\<forall>f\<in>set (custom_scores_source a). isfile w (abspath w f))
      \<and> registry_after w (custom_scores_source a) (registry s) = Inr (registry s')
      \<and> get_scorer_class w (score a) (registry s') = Inr cls
      \<and> add_args cls base_parser = Inr parser
      \<and> parse_args w parser = Inr a'
      \<and> trace s' = trace s @ ParseKnownArgs # map IsFile (provided a path_names)
                @ custom_events w (custom_scores_source a)
                @ [GetScorerClass (score a), AddArgs, ParseArgs]"
  using get_args_cases [of w s]
proof (elim disjE exE)
  fix e reg tr
  assume "get_args w s = (Inl e, s\<lparr>registry := reg, trace := trace s @ tr\<rparr>)
      \<and> set tr \<subseteq> {ParseKnownArgs, AddArgs} \<union> range IsFile \<union> range ReadCustomScorersSource
            \<union> range GetScorerClass"
  then show ?thesis using assms by simp
next
  fix a reg cls parser
  assume h: "parse_known_args w base_parser = Inr a
      \<and> (source_side_of a \<or> target_side_of a)
      \<and> (\<forall>n\<in>set path_names. \<forall>f. getattr a n = Some f \<longrightarrow> isfile w f)
      \<and> (\<forall>f\<in>set (custom_scores_source a). isfile w (abspath w f))
      \<and> registry_after w (custom_scores_source a) (registry s) = Inr reg
      \<and> get_scorer_class w (score a) reg = Inr cls
      \<and> add_args cls base_parser = Inr parser
      \<and> get_args w s =
          (map_sum id (\<lambda>a'. (a', source_side_of a, target_side_of a)) (parse_args w parser),
           s\<lparr>registry := reg,
             trace := trace s @ ParseKnownArgs # map IsFile (provided a path_names)
                @ custom_events w (custom_scores_source a)
                @ [GetScorerClass (score a), AddArgs, ParseArgs]\<rparr>)"
  then have r: "get_args w s =
          (map_sum id (\<lambda>a'. (a', source_side_of a, target_side_of a)) (parse_args w parser),
           s\<lparr>registry := reg,
             trace := trace s @ ParseKnownArgs # map IsFile (provided a path_names)
                @ custom_events w (custom_scores_source a)
                @ [GetScorerClass (score a), AddArgs, ParseArgs]\<rparr>)" by simp
  from r assms obtain p: "parse_args w parser = Inr a'" and "ss = source_side_of a" "ts = target_side_of a"
    and s': "s' = s\<lparr>registry := reg,
             trace := trace s @ ParseKnownArgs # map IsFile (provided a path_names)
                @ custom_events w (custom_scores_source a)
                @ [GetScorerClass (score a), AddArgs, ParseArgs]\<rparr>"
    by (cases "parse_args w parser") auto
  then show ?thesis using h by (intro exI [of _ a] exI [of _ cls] exI [of _ parser]) simp
qed

lemma printed_Nil [simp]: "printed [] = []"
  by (simp add: printed_def)

lemma printed_append [simp]: "printed (xs @ ys) = printed xs @ printed ys"
  by (simp add: printed_def)

lemma printed_map_Print [simp]: "printed (map Print ls) = ls"
  by (induction ls) (simp_all add: printed_def)

lemma printed_map_IsFile [simp]: "printed (map IsFile fs) = []"
  by (induction fs) (simp_all add: printed_def)

lemma printed_custom_events [simp]: "printed (custom_events w fs) = []"
  by (induction fs) (simp_all add: printed_def custom_events_def)

lemma printed_Cons:
  "printed (ev # tr) = (case ev of Print l \<Rightarrow> [l] | _ \<Rightarrow> []) @ printed tr"
  by (simp add: printed_def)

lemma get_args_silent:
  "get_args w s = (Inr r, s') \<Longrightarrow> printed (trace s') = printed (trace s)"
  using get_args_Inr [of w s "fst r" "fst (snd r)" "snd (snd r)" s']
  by (auto simp add: printed_Cons)

lemma bnd_assoc [simp]: "bnd (bnd m g) f = bnd m (\<lambda>x. bnd (g x) f)"
  by (rule ext) (simp add: bnd_def split: prod.splits sum.splits)

lemma source_side_eval_ok:
  assumes "loadtxt w (adv_src a) = Inr l1" and "loadtxt w (src a) = Inr l2"
    and "scorer_score sc l1 l2 (src_lang a) = Inr s_src" and "stats w s_src = Inr st"
  shows "source_side_eval w a sc s =
     (Inr (length s_src, s_src), s\<lparr>trace := trace s @ source_events a sc s_src st\<rparr>)"
  using assms by (simp add: source_side_eval_def source_events_def ok_def)

lemma target_side_eval_ok:
  assumes "loadtxt w (adv_out a) = Inr l3" and "loadtxt w (out a) = Inr l4"
    and "loadtxt w (ref a) = Inr l5"
    and "scorer_rd_score sc l3 l4 l5 (tgt_lang a) = Inr d_tgt" and "stats w d_tgt = Inr st"
    and "N = None \<or> N = Some (length d_tgt)"
  shows "target_side_eval w a sc ss N s =
     (Inr (length d_tgt, d_tgt), s\<lparr>trace := trace s @ target_events a sc ss d_tgt st\<rparr>)"
  using assms by (auto simp add: target_side_eval_def target_events_def ok_def)

lemma target_side_eval_mismatch:
  assumes "loadtxt w (adv_out a) = Inr l3" and "loadtxt w (out a) = Inr l4"
    and "loadtxt w (ref a) = Inr l5"
    and "scorer_rd_score sc l3 l4 l5 (tgt_lang a) = Inr d_tgt"
    and "length d_tgt \<noteq> n"
  shows "target_side_eval w a sc ss (Some n) s =
     (Inl (ValueError (msg_mismatch n (length d_tgt))),
      s\<lparr>trace := trace s @ [LoadTxt (adv_out a), LoadTxt (out a), LoadTxt (ref a), RdScore]\<rparr>)"
  using assms by (simp add: target_side_eval_def)

lemma both_sided_ok:
  "0 < N \<Longrightarrow> both_sided a s_src d_tgt N s =
     (Inr (), s\<lparr>trace := trace s @ map Print (success_report a (success_fraction s_src d_tgt N))\<rparr>)"
  by (simp add: both_sided_def print_lines_def)

lemma main_after_get_args:
  assumes "get_args w s = (Inr (a, ss, ts), s1)" and "scorer_from_args w a (registry s1) = Inr sc"
  shows "main w s =
     bnd (if ss
          then bnd (source_side_eval w a sc) (\<lambda>(N, s_src). ok (Some N, s_src))
          else ok (None, [])) (\<lambda>(N, s_src).
     bnd (if ts
          then bnd (target_side_eval w a sc ss N) (\<lambda>(N', d_tgt). ok (Some N', d_tgt))
          else ok (N, [])) (\<lambda>(N', d_tgt).
     if ts \<and> ss
     then (case N' of
             None \<Rightarrow> raise (Raised ''TypeError'')
           | Some n \<Rightarrow> both_sided a s_src d_tgt n)
     else ok ())) (s1\<lparr>trace := trace s1 @ [ScorerFromArgs]\<rparr>)"
proof -
  have "main w s = bnd (make_scorer w a) (\<lambda>scorer.
     bnd (if ss
          then bnd (source_side_eval w a scorer) (\<lambda>(N, s_src). ok (Some N, s_src))
          else ok (None, [])) (\<lambda>(N, s_src).
     bnd (if ts
          then bnd (target_side_eval w a scorer ss N) (\<lambda>(N', d_tgt). ok (Some N', d_tgt))
          else ok (N, [])) (\<lambda>(N', d_tgt).
     if ts \<and> ss
     then (case N' of
             None \<Rightarrow> raise (Raised ''TypeError'')
           | Some n \<Rightarrow> both_sided a s_src d_tgt n)
     else ok ()))) s1"
    unfolding main_def
    by (simp add: bnd_Inr [where m = "get_args w" and s = s, OF assms(1)])
  then show ?thesis
    by (simp add: bnd_make_scorer_Inr [OF assms(2)])
qed

lemma main_ok:
  assumes ga: "get_args w s = (Inr (a, ss, ts), s1)"
    and sc: "scorer_from_args w a (registry s1) = Inr sc"
    and src: "ss \<Longrightarrow> loadtxt w (adv_src a) = Inr l1 \<and> loadtxt w (src a) = Inr l2
        \<and> scorer_score sc l1 l2 (src_lang a) = Inr s_src \<and> stats w s_src = Inr st1"
    and tgt: "ts \<Longrightarrow> loadtxt w (adv_out a) = Inr l3 \<and> loadtxt w (out a) = Inr l4
        \<and> loadtxt w (ref a) = Inr l5
        \<and> scorer_rd_score sc l3 l4 l5 (tgt_lang a) = Inr d_tgt \<and> stats w d_tgt = Inr st2"
    and both: "ss \<Longrightarrow> ts \<Longrightarrow> length d_tgt = length s_src \<and> 0 < length s_src"
  shows "main w s =
     (Inr (),
      s1\<lparr>trace := trace s1 @ ScorerFromArgs
         # (if ss then source_events a sc s_src st1 else [])
         @ (if ts then target_events a sc ss d_tgt st2 else [])
         @ (if ss \<and> ts
            then map Print (success_report a (success_fraction s_src d_tgt (length s_src)))
            else [])\<rparr>)"
proof -
  let ?s2 = "s1\<lparr>trace := trace s1 @ [ScorerFromArgs]\<rparr>"
  note m = main_after_get_args [OF ga sc]
  show ?thesis
  proof (cases ss)
    case False
    note ss = False
    show ?thesis
    proof (cases ts)
      case False
      then show ?thesis using ss m by (simp add: ok_def)
    next
      case True
      have "target_side_eval w a sc False None ?s2 =
          (Inr (length d_tgt, d_tgt),
           s1\<lparr>trace := trace s1 @ ScorerFromArgs # target_events a sc False d_tgt st2\<rparr>)"
        using tgt [OF True] target_side_eval_ok [of w a l3 l4 l5 sc d_tgt st2 None False ?s2]
        by simp
      note b = bnd_Inr [where m = "target_side_eval w a sc False None" and s = ?s2, OF this]
      show ?thesis using ss True m by (simp add: b ok_def)
    qed
  next
    case True
    note ss = True
    let ?s3 = "s1\<lparr>trace := trace s1 @ ScorerFromArgs # source_events a sc s_src st1\<rparr>"
    have e1: "source_side_eval w a sc ?s2 = (Inr (length s_src, s_src), ?s3)"
      using src [OF True] source_side_eval_ok [of w a l1 l2 sc s_src st1 ?s2] by simp
    note b1 = bnd_Inr [where m = "source_side_eval w a sc" and s = ?s2, OF e1]
    show ?thesis
    proof (cases ts)
      case False
      then show ?thesis using ss m by (simp add: b1 ok_def)
    next
      case True
      have e2: "target_side_eval w a sc True (Some (length s_src)) ?s3 =
          (Inr (length d_tgt, d_tgt),
           s1\<lparr>trace := trace s1 @ ScorerFromArgs # source_events a sc s_src st1
              @ target_events a sc True d_tgt st2\<rparr>)"
        using tgt [OF True] both [OF ss True]
          target_side_eval_ok [of w a l3 l4 l5 sc d_tgt st2 "Some (length s_src)" True ?s3]
        by simp
      note b2 = bnd_Inr [where m = "target_side_eval w a sc True (Some (length s_src))" and s = ?s3,
          OF e2]
      show ?thesis using ss True m both [OF ss True]
        by (simp add: b1 b2 both_sided_ok)
    qed
  qed
qed

lemma main_mismatch:
  assumes ga: "get_args w s = (Inr (a, True, True), s1)"
    and sc: "scorer_from_args w a (registry s1) = Inr sc"
    and src: "loadtxt w (adv_src a) = Inr l1" "loadtxt w (src a) = Inr l2"
        "scorer_score sc l1 l2 (src_lang a) = Inr s_src" "stats w s_src = Inr st1"
    and tgt: "loadtxt w (adv_out a) = Inr l3" "loadtxt w (out a) = Inr l4"
        "loadtxt w (ref a) = Inr l5" "scorer_rd_score sc l3 l4 l5 (tgt_lang a) = Inr d_tgt"
    and ne: "length d_tgt \<noteq> length s_src"
  shows "main w s =
     (Inl (ValueError (msg_mismatch (length s_src) (length d_tgt))),
      s1\<lparr>trace := trace s1 @ ScorerFromArgs # source_events a sc s_src st1
         @ [LoadTxt (adv_out a), LoadTxt (out a), LoadTxt (ref a), RdScore]\<rparr>)"
proof -
  let ?s2 = "s1\<lparr>trace := trace s1 @ [ScorerFromArgs]\<rparr>"
  let ?s3 = "s1\<lparr>trace := trace s1 @ ScorerFromArgs # source_events a sc s_src st1\<rparr>"
  note m = main_after_get_args [OF ga sc]
  have e1: "source_side_eval w a sc ?s2 = (Inr (length s_src, s_src), ?s3)"
    using source_side_eval_ok [OF src, of ?s2] by simp
  note b1 = bnd_Inr [where m = "source_side_eval w a sc" and s = ?s2, OF e1]
  have e2: "target_side_eval w a sc True (Some (length s_src)) ?s3 =
      (Inl (ValueError (msg_mismatch (length s_src) (length d_tgt))),
       s1\<lparr>trace := trace s1 @ ScorerFromArgs # source_events a sc s_src st1
         @ [LoadTxt (adv_out a), LoadTxt (out a), LoadTxt (ref a), RdScore]\<rparr>)"
    using target_side_eval_mismatch [OF tgt ne, where ss = True and s = ?s3] by simp
  note b2 = bnd_Inl [where m = "target_side_eval w a sc True (Some (length s_src))" and s = ?s3, OF e2]
  show ?thesis using m by (simp add: b1 b2)
qed

subsection \<open>The whole run\<close>

lemma main_get_args_fails:
  "get_args w s = (Inl e, s') \<Longrightarrow> main w s = (Inl e, s')"
  unfolding main_def by (rule bnd_Inl [where m = "get_args w" and s = s])

lemma msg_no_file_names_argument: "sublist name (msg_no_file name filename)"
  unfolding msg_no_file_def by (rule sublist_appendI)

lemma msg_no_file_names_path: "sublist filename (msg_no_file name filename)"
proof -
  have "msg_no_file name filename =
     (''Specified file for '' @ [CHR 0x22] @ name @ [CHR 0x22] @ '' ('' @ [CHR 0x22]) @ filename @
       ([CHR 0x22] @ '')'' @ '' does not exist'')"
    by (simp add: msg_no_file_def)
  then show ?thesis
    using sublist_appendI by metis
qed

lemma msg_mismatch_names_source: "sublist (str_nat n) (msg_mismatch n m)"
  unfolding msg_mismatch_def by (rule sublist_appendI)

lemma msg_mismatch_names_target: "sublist (str_nat m) (msg_mismatch n m)"
proof -
  have "msg_mismatch n m =
     (''The number of samples in the source ('' @ str_nat n @ '') doesn'' @ [CHR 0x27] @ ''t match '' @
     ''the number of samples in the target ('') @ str_nat m @ '')''"
    by (simp add: msg_mismatch_def)
  then show ?thesis
    using sublist_appendI by metis
qed

lemma success_length: "length (success s_src d_tgt) = min (length s_src) (length d_tgt)"
  by (simp add: success_def)


lemma sum_success_bounds:
  "0 \<le> sum_list (success s_src d_tgt) \<and> sum_list (success s_src d_tgt) \<le> real (length (success s_src d_tgt))"
proof -
  have "0 \<le> sum_list (map (\<lambda>(s, d). if s + d > 1 then 1 else (0::real)) ps)
      \<and> sum_list (map (\<lambda>(s, d). if s + d > 1 then 1 else (0::real)) ps) \<le> real (length ps)"
    for ps :: "(real \<times> real) list"
    by (induction ps) auto
  from this [of "zip s_src d_tgt"] show ?thesis by (simp add: success_def)
qed

subsection \<open>The trace only grows\<close>














subsection \<open>What is printed\<close>

lemma numbers_Nil [simp]: "numbers [] = []"
  by (simp add: numbers_def)

lemma numbers_append [simp]: "numbers (xs @ ys) = numbers xs @ numbers ys"
  by (simp add: numbers_def)

lemma numbers_source_report:
  "numbers (source_report a sc (avg, std, p5, p95)) =
     map (\<lambda>v. v * scale a) (if terse a then [avg] else [avg, std, p5, p95])"
  by (simp add: numbers_def source_report_def stats_lines_def)

lemma numbers_target_report:
  "numbers (target_report a sc ss (avg, std, p5, p95)) =
     map (\<lambda>v. v * scale a) (if terse a then [avg] else [avg, std, p5, p95])"
  by (simp add: numbers_def target_report_def stats_lines_def dashes_def)

lemma numbers_success_report: "numbers (success_report a fraction) = [fraction * 100]"
  by (simp add: numbers_def success_report_def dashes_def)

lemma printed_source_events [simp]:
  "printed (source_events a sc s_src st) = source_report a sc st"
  by (simp add: source_events_def printed_Cons)

lemma printed_target_events [simp]:
  "printed (target_events a sc ss d_tgt st) = target_report a sc ss st"
  by (simp add: target_events_def printed_Cons)

lemma main_ok_printed:
  assumes ga: "get_args w s = (Inr (a, ss, ts), s1)"
    and sc: "scorer_from_args w a (registry s1) = Inr sc"
    and src: "ss \<Longrightarrow> loadtxt w (adv_src a) = Inr l1 \<and> loadtxt w (src a) = Inr l2
        \<and> scorer_score sc l1 l2 (src_lang a) = Inr s_src \<and> stats w s_src = Inr st1"
    and tgt: "ts \<Longrightarrow> loadtxt w (adv_out a) = Inr l3 \<and> loadtxt w (out a) = Inr l4
        \<and> loadtxt w (ref a) = Inr l5
        \<and> scorer_rd_score sc l3 l4 l5 (tgt_lang a) = Inr d_tgt \<and> stats w d_tgt = Inr st2"
    and both: "ss \<Longrightarrow> ts \<Longrightarrow> length d_tgt = length s_src \<and> 0 < length s_src"
  shows "\<exists>s2. main w s = (Inr (), s2) \<and>
     printed (trace s2) = printed (trace s)
       @ (if ss then source_report a sc st1 else [])
       @ (if ts then target_report a sc ss st2 else [])
       @ (if ss \<and> ts then success_report a (success_fraction s_src d_tgt (length s_src)) else [])"
proof -
  note m = main_ok [OF ga sc src tgt both]
  have "printed (trace s1) = printed (trace s)" using get_args_silent [OF ga] .
  then show ?thesis using m by (simp add: printed_Cons)
qed

subsection \<open>Evaluating the example world\<close>

lemma example_world_fields:
  "parse_known_args (example_world a) parser = Inr a"
  "parse_args (example_world a) parser = Inr a"
  "isfile (example_world a) p = (map_of example_files p \<noteq> None)"
  "abspath (example_world a) p = p"
  "read_custom_scorers_source (example_world a) path reg =
     Inr (reg(''mine'' \<mapsto> example_class [''--mine-option'']))"
  "get_scorer_class (example_world a) name reg =
     (case reg name of None \<Rightarrow> Inl (Raised ''unknown scorer'') | Some c \<Rightarrow> Inr c)"
  "scorer_from_args (example_world a) a' reg =
     (case reg (score a') of None \<Rightarrow> Inl (Raised ''unknown scorer'') | Some c \<Rightarrow> Inr example_scorer)"
  "loadtxt (example_world a) None = Inl (Raised ''TypeError'')"
  "loadtxt (example_world a) (Some f) =
     (case map_of example_files f of
        None \<Rightarrow> Inl (Raised ''FileNotFoundError'')
      | Some ls \<Rightarrow> Inr ls)"
  "stats (example_world a) = example_stats"
  by (simp_all add: example_world_def)

lemmas run_defs =
  main_def get_args_def source_side_of_def target_side_of_def path_names_def getattr_def
  lookup_scorer_class_def make_scorer_def load_source_def source_side_eval_def
  target_side_eval_def both_sided_def bnd_def call_def ok_def raise_def print_lines_def

lemmas eval_defs = example_world_fields example_files_def example_init_def example_class_def
  example_scorer_def example_stats_def both_args_def default_args_def
  run_defs terse_args_def source_report_def target_report_def
  success_report_def stats_lines_def dashes_def success_fraction_def success_def
  source_events_def target_events_def printed_def numbers_def Let_def

section \<open>The claims\<close>

subsection \<open>The success fraction\<close>



text \<open>
  Claim C10. Whenever the success fraction is computed (equal sample counts
  \<open>N \<ge> 1\<close>), the block prints its report and the fraction lies between 0 and 1,
  whatever values the scorer returned.
\<close>

theorem success_fraction_in_unit_interval:
  assumes "length s_src = N" and "length d_tgt = N" and "1 \<le> N"
  shows "both_sided a s_src d_tgt N s =
     (Inr (), s\<lparr>trace := trace s @ map Print (success_report a (success_fraction s_src d_tgt N))\<rparr>)
    \<and> 0 \<le> success_fraction s_src d_tgt N \<and> success_fraction s_src d_tgt N \<le> 1"
proof -
  have "length (success s_src d_tgt) = N" using assms by (simp add: success_length)
  then have "0 \<le> sum_list (success s_src d_tgt)" "sum_list (success s_src d_tgt) \<le> real N"
    using sum_success_bounds [of s_src d_tgt] by simp_all
  then have "0 \<le> success_fraction s_src d_tgt N \<and> success_fraction s_src d_tgt N \<le> 1"
    using assms(3) by (simp add: success_fraction_def divide_le_eq)
  then show ?thesis using assms(3) both_sided_ok [of N a s_src d_tgt s] by simp
qed

theorem success_fraction_in_unit_interval_witness:
  "length [3 / 4, 1 / 4 :: real] = 2 \<and> length [1 / 2, 1 / 2 :: real] = 2
   \<and> success [3 / 4, 1 / 4] [1 / 2, 1 / 2] = [1, 0]
   \<and> success_fraction [3 / 4, 1 / 4] [1 / 2, 1 / 2] 2 = 1 / 2
   \<and> both_sided both_args [3 / 4, 1 / 4] [1 / 2, 1 / 2] 2 example_init =
       (Inr (), example_init\<lparr>trace := trace example_init
          @ map Print (success_report both_args (success_fraction [3 / 4, 1 / 4] [1 / 2, 1 / 2] 2))\<rparr>)
   \<and> 0 \<le> success_fraction [3 / 4, 1 / 4] [1 / 2, 1 / 2] 2
   \<and> success_fraction [3 / 4, 1 / 4] [1 / 2, 1 / 2] 2 \<le> 1"
proof -
  have n: "length [3 / 4, 1 / 4 :: real] = 2" "length [1 / 2, 1 / 2 :: real] = 2" "1 \<le> (2::nat)"
    by simp_all
  note t = success_fraction_in_unit_interval [OF n, of both_args example_init]
  have c1: "success [3 / 4, 1 / 4] [1 / 2, 1 / 2] = [1, 0]" by (simp add: success_def)
  have c2: "success_fraction [3 / 4, 1 / 4] [1 / 2, 1 / 2] 2 = 1 / 2"
    by (simp add: success_fraction_def success_def)
  from t have t1: "both_sided both_args [3 / 4, 1 / 4] [1 / 2, 1 / 2] 2 example_init =
       (Inr (), example_init\<lparr>trace := trace example_init
          @ map Print (success_report both_args (success_fraction [3 / 4, 1 / 4] [1 / 2, 1 / 2] 2))\<rparr>)"
    and t2: "0 \<le> success_fraction [3 / 4, 1 / 4] [1 / 2, 1 / 2] 2"
    and t3: "success_fraction [3 / 4, 1 / 4] [1 / 2, 1 / 2] 2 \<le> 1"
    by blast+
  show ?thesis by (intro conjI n(1,2) c1 c2 t1 t2 t3)
qed

subsection \<open>The sample counts of the two sides\<close>

text \<open>
  Claim C2. When both sides run, \<^verbatim>\<open>score\<close> returns \<open>N\<close> values and \<^verbatim>\<open>rd_score\<close>
  returns \<open>M \<noteq> N\<close> values, the run fails with a \<^verbatim>\<open>ValueError\<close> whose message
  contains the decimal numerals of \<open>N\<close> and of \<open>M\<close>. The trace of the failed run ends
  with the call of \<^verbatim>\<open>rd_score\<close>: the statistics of the target side are not computed,
  and nothing of the target side or of the success is printed.
\<close>

theorem sample_count_mismatch:
  assumes "get_args w s = (Inr (a, True, True), s1)"
    and "scorer_from_args w a (registry s1) = Inr sc"
    and "loadtxt w (adv_src a) = Inr l1" and "loadtxt w (src a) = Inr l2"
    and "scorer_score sc l1 l2 (src_lang a) = Inr s_src" and "stats w s_src = Inr st1"
    and "loadtxt w (adv_out a) = Inr l3" and "loadtxt w (out a) = Inr l4"
    and "loadtxt w (ref a) = Inr l5"
    and "scorer_rd_score sc l3 l4 l5 (tgt_lang a) = Inr d_tgt"
    and "length s_src = N" and "length d_tgt = M" and "M \<noteq> N"
  shows "main w s =
     (Inl (ValueError (msg_mismatch N M)),
      s1\<lparr>trace := trace s1 @ ScorerFromArgs # source_events a sc s_src st1
         @ [LoadTxt (adv_out a), LoadTxt (out a), LoadTxt (ref a), RdScore]\<rparr>)
    \<and> sublist (str_nat N) (msg_mismatch N M) \<and> sublist (str_nat M) (msg_mismatch N M)"
  using main_mismatch [OF assms(1-10)] assms(11-13)
    msg_mismatch_names_source [of N M] msg_mismatch_names_target [of M N] by simp

theorem sample_count_mismatch_witness:
  "fst (get_args (example_world (both_args\<lparr>adv_out := Some ''short''\<rparr>)) example_init)
     = Inr (both_args\<lparr>adv_out := Some ''short''\<rparr>, True, True)
   \<and> main (example_world (both_args\<lparr>adv_out := Some ''short''\<rparr>)) example_init =
       (Inl (ValueError (msg_mismatch 2 1)),
        (snd (get_args (example_world (both_args\<lparr>adv_out := Some ''short''\<rparr>)) example_init))
        \<lparr>trace := trace (snd (get_args (example_world (both_args\<lparr>adv_out := Some ''short''\<rparr>)) example_init))
           @ ScorerFromArgs
           # source_events (both_args\<lparr>adv_out := Some ''short''\<rparr>) example_scorer [3 / 4, 3 / 4]
               (3 / 4, 0, 3 / 4, 3 / 4)
           @ [LoadTxt (adv_out (both_args\<lparr>adv_out := Some ''short''\<rparr>)),
              LoadTxt (out (both_args\<lparr>adv_out := Some ''short''\<rparr>)),
              LoadTxt (ref (both_args\<lparr>adv_out := Some ''short''\<rparr>)), RdScore]\<rparr>)
   \<and> msg_mismatch 2 1 =
       ''The number of samples in the source (2) doesn't match the number of samples in the target (1)''"
proof -
  let ?a = "both_args\<lparr>adv_out := Some ''short''\<rparr>"
  let ?w = "example_world ?a"
  let ?s1 = "snd (get_args ?w example_init)"
  have ga: "get_args ?w example_init = (Inr (?a, True, True), ?s1)"
    by (simp add: eval_defs)
  have sc: "scorer_from_args ?w ?a (registry ?s1) = Inr example_scorer"
    by (simp add: eval_defs)
  have l1: "loadtxt ?w (adv_src ?a) = Inr [''the cat sit'', ''a b d'']"
    and l2: "loadtxt ?w (src ?a) = Inr [''the cat sat'', ''a b c'']"
    and l3: "loadtxt ?w (adv_out ?a) = Inr [''le chien'']"
    and l4: "loadtxt ?w (out ?a) = Inr [''le chat'', ''x z'']"
    and l5: "loadtxt ?w (ref ?a) = Inr [''le chat'', ''x y'']"
    by (simp_all add: example_world_fields example_files_def both_args_def default_args_def)
  have s: "scorer_score example_scorer [''the cat sit'', ''a b d''] [''the cat sat'', ''a b c'']
      (src_lang ?a) = Inr [3 / 4, 3 / 4]"
    and d: "scorer_rd_score example_scorer [''le chien''] [''le chat'', ''x z'']
        [''le chat'', ''x y''] (tgt_lang ?a) = Inr [1 / 2]"
    by (simp_all add: example_scorer_def)
  have st1: "stats ?w [3 / 4, 3 / 4] = Inr (3 / 4, 0, 3 / 4, 3 / 4)"
    by (simp add: example_world_fields example_stats_def)
  have n: "length [3 / 4, 3 / 4 :: real] = 2" "length [1 / 2 :: real] = 1" "(1::nat) \<noteq> 2"
    by simp_all
  note t = sample_count_mismatch [OF ga sc l1 l2 s st1 l3 l4 l5 d n]
  have c1: "fst (get_args ?w example_init) = Inr (?a, True, True)"
    using ga by (metis fst_conv)
  have c2: "msg_mismatch 2 1 =
       ''The number of samples in the source (2) doesn't match the number of samples in the target (1)''"
    by (simp add: msg_mismatch_def str_nat.simps digit_char_def)
  show ?thesis by (intro conjI c1 c2 conjunct1 [OF t])
qed

subsection \<open>The configuration check\<close>

text \<open>
  Claim C3. When the first parse returns a namespace in which \<^verbatim>\<open>src\<close> or
  \<^verbatim>\<open>adv_src\<close> is missing, and \<^verbatim>\<open>ref\<close>, \<^verbatim>\<open>out\<close> or \<^verbatim>\<open>adv_out\<close> is missing, the run
  fails with the configuration error, and the first parse is the only effect that
  precedes the failure: no file is tested for existence and none is read.
\<close>

theorem no_side_configured:
  assumes "parse_known_args w base_parser = Inr a"
    and "src a = None \<or> adv_src a = None"
    and "ref a = None \<or> out a = None \<or> adv_out a = None"
  shows "main w s = (Inl (ValueError msg_no_side), s\<lparr>trace := trace s @ [ParseKnownArgs]\<rparr>)"
proof -
  have "\<not> source_side_of a" "\<not> target_side_of a"
    using assms(2,3) by (auto simp add: source_side_of_def target_side_of_def)
  then show ?thesis
    using get_args_no_side [OF assms(1)] by (intro main_get_args_fails) simp
qed

theorem no_side_configured_witness:
  "parse_known_args (example_world (default_args\<lparr>src := Some ''src''\<rparr>)) base_parser
     = Inr (default_args\<lparr>src := Some ''src''\<rparr>)
   \<and> adv_src (default_args\<lparr>src := Some ''src''\<rparr>) = None
   \<and> ref (default_args\<lparr>src := Some ''src''\<rparr>) = None
   \<and> main (example_world (default_args\<lparr>src := Some ''src''\<rparr>)) example_init
     = (Inl (ValueError msg_no_side), example_init\<lparr>trace := trace example_init @ [ParseKnownArgs]\<rparr>)"
proof -
  let ?a = "default_args\<lparr>src := Some ''src''\<rparr>"
  have p: "parse_known_args (example_world ?a) base_parser = Inr ?a"
    by (simp add: example_world_fields)
  have a: "adv_src ?a = None" and r: "ref ?a = None" by (simp_all add: default_args_def)
  note t = no_side_configured [OF p disjI2 [OF a] disjI1 [OF r], of example_init]
  show ?thesis by (intro conjI p a r t)
qed




subsection \<open>The existence of the files\<close>

text \<open>
  Claim C6, as amended. When at least one group is given in full and, in the order
  \<^verbatim>\<open>src\<close>, \<^verbatim>\<open>adv_src\<close>, \<^verbatim>\<open>ref\<close>, \<^verbatim>\<open>out\<close>, \<^verbatim>\<open>adv_out\<close>, the argument \<open>name\<close> is
  the first that is provided with a path that is not a file, the run fails with a
  \<^verbatim>\<open>ValueError\<close> whose message contains \<open>name\<close> and the path. Before the failure
  there are only the first parse and tests of existence: no scorer is called and no
  statistics are computed.
\<close>

theorem first_missing_file_named:
  assumes "parse_known_args w base_parser = Inr a"
    and "source_side_of a \<or> target_side_of a"
    and "path_names = pre @ name # post"
    and "\<forall>n\<in>set pre. \<forall>f. getattr a n = Some f \<longrightarrow> isfile w f"
    and "getattr a name = Some filename" and "\<not> isfile w filename"
  shows "main w s =
     (Inl (ValueError (msg_no_file name filename)),
      s\<lparr>trace := trace s @ ParseKnownArgs # map IsFile (provided a pre @ [filename])\<rparr>)
    \<and> sublist name (msg_no_file name filename)
    \<and> sublist filename (msg_no_file name filename)"
  using main_get_args_fails [OF get_args_missing_file [OF assms]] msg_no_file_names_argument [of name filename]
    msg_no_file_names_path [of filename name]
  by simp

text \<open>
  The claim as stated fails: with \<^verbatim>\<open>--src\<close> alone, naming a path that is not a
  file, the run fails with the configuration error, whose message does not contain
  the path.
\<close>

theorem missing_file_not_named:
  "getattr (default_args\<lparr>src := Some ''nowhere''\<rparr>) ''src'' = Some ''nowhere''
   \<and> \<not> isfile (example_world (default_args\<lparr>src := Some ''nowhere''\<rparr>)) ''nowhere''
   \<and> fst (main (example_world (default_args\<lparr>src := Some ''nowhere''\<rparr>)) example_init)
       = Inl (ValueError msg_no_side)
   \<and> \<not> sublist ''nowhere'' msg_no_side"
proof -
  let ?a = "default_args\<lparr>src := Some ''nowhere''\<rparr>"
  have c1: "getattr ?a ''src'' = Some ''nowhere''" by (simp add: getattr_def)
  have c2: "\<not> isfile (example_world ?a) ''nowhere''"
    by (simp add: example_world_fields example_files_def)
  have c3: "fst (main (example_world ?a) example_init) = Inl (ValueError msg_no_side)"
    by (simp add: eval_defs)
  have c4: "\<not> sublist ''nowhere'' msg_no_side"
  proof
    assume "sublist ''nowhere'' msg_no_side"
    then have "set ''nowhere'' \<subseteq> set msg_no_side" by (rule set_mono_sublist)
    then have "CHR ''w'' \<in> set msg_no_side" by simp
    then show False by (simp add: msg_no_side_def)
  qed
  show ?thesis by (intro conjI c1 c2 c3 c4)
qed

theorem first_missing_file_named_witness:
  "parse_known_args (example_world (both_args\<lparr>adv_src := Some ''nowhere''\<rparr>)) base_parser
     = Inr (both_args\<lparr>adv_src := Some ''nowhere''\<rparr>)
   \<and> path_names = [''src''] @ ''adv_src'' # [''ref'', ''out'', ''adv_out'']
   \<and> getattr (both_args\<lparr>adv_src := Some ''nowhere''\<rparr>) ''adv_src'' = Some ''nowhere''
   \<and> \<not> isfile (example_world (both_args\<lparr>adv_src := Some ''nowhere''\<rparr>)) ''nowhere''
   \<and> main (example_world (both_args\<lparr>adv_src := Some ''nowhere''\<rparr>)) example_init =
       (Inl (ValueError (msg_no_file ''adv_src'' ''nowhere'')),
        example_init\<lparr>trace := trace example_init @ ParseKnownArgs
           # map IsFile (provided (both_args\<lparr>adv_src := Some ''nowhere''\<rparr>) [''src''] @ [''nowhere''])\<rparr>)
   \<and> provided (both_args\<lparr>adv_src := Some ''nowhere''\<rparr>) [''src''] = [''src'']"
proof -
  let ?a = "both_args\<lparr>adv_src := Some ''nowhere''\<rparr>"
  let ?w = "example_world ?a"
  have p: "parse_known_args ?w base_parser = Inr ?a" by (simp add: example_world_fields)
  have side: "source_side_of ?a \<or> target_side_of ?a"
    by (simp add: source_side_of_def both_args_def)
  have names: "path_names = [''src''] @ ''adv_src'' # [''ref'', ''out'', ''adv_out'']"
    by (simp add: path_names_def)
  have pre: "\<forall>n\<in>set [''src'']. \<forall>f. getattr ?a n = Some f \<longrightarrow> isfile ?w f"
    by (simp add: getattr_def both_args_def example_world_fields example_files_def)
  have g: "getattr ?a ''adv_src'' = Some ''nowhere''" by (simp add: getattr_def)
  have nf: "\<not> isfile ?w ''nowhere''" by (simp add: example_world_fields example_files_def)
  note t = first_missing_file_named [OF p side names pre g nf, of example_init]
  have c: "provided ?a [''src''] = [''src'']"
    by (simp add: provided_def List.map_filter_simps getattr_def both_args_def)
  show ?thesis by (intro conjI p names g nf c conjunct1 [OF t])
qed



subsection \<open>The custom scorers\<close>

text \<open>
  Claim C7. In every run of \<^verbatim>\<open>get_args\<close> that reaches the final parse, the trace is:
  the first parse, the tests of existence of the provided paths, then for each custom
  source in order its test of existence and its reading, then the lookup of the scorer
  class, then \<^verbatim>\<open>add_args\<close>, then the final parse. The class is looked up in the
  registry that the readings have left, and the parser of the final parse is the one
  this class has extended.
\<close>

theorem custom_scorers_loaded_before_final_parse:
  assumes "ParseArgs \<notin> set (trace s)" and "ParseArgs \<in> set (trace (snd (get_args w s)))"
  shows "\<exists>a reg cls parser. parse_known_args w base_parser = Inr a
      \<and> registry_after w (custom_scores_source a) (registry s) = Inr reg
      \<and> get_scorer_class w (score a) reg = Inr cls
      \<and> add_args cls base_parser = Inr parser
      \<and> fst (get_args w s) =
          (case parse_args w parser of
             Inl e \<Rightarrow> Inl e
           | Inr a' \<Rightarrow> Inr (a', source_side_of a, target_side_of a))
      \<and> snd (get_args w s) =
           s\<lparr>registry := reg,
             trace := trace s @ ParseKnownArgs # map IsFile (provided a path_names)
                @ custom_events w (custom_scores_source a)
                @ [GetScorerClass (score a), AddArgs, ParseArgs]\<rparr>"
  using get_args_cases [of w s]
proof (elim disjE exE)
  fix e reg tr
  assume "get_args w s = (Inl e, s\<lparr>registry := reg, trace := trace s @ tr\<rparr>)
      \<and> set tr \<subseteq> {ParseKnownArgs, AddArgs} \<union> range IsFile \<union> range ReadCustomScorersSource
            \<union> range GetScorerClass"
  then have "ParseArgs \<notin> set (trace (snd (get_args w s)))" using assms(1) by auto
  then show ?thesis using assms(2) by simp
next
  fix a reg cls parser
  assume h: "parse_known_args w base_parser = Inr a
      \<and> (source_side_of a \<or> target_side_of a)
      \<and> (\<forall>n\<in>set path_names. \<forall>f. getattr a n = Some f \<longrightarrow> isfile w f)
      \<and> (\<forall>f\<in>set (custom_scores_source a). isfile w (abspath w f))
      \<and> registry_after w (custom_scores_source a) (registry s) = Inr reg
      \<and> get_scorer_class w (score a) reg = Inr cls
      \<and> add_args cls base_parser = Inr parser
      \<and> get_args w s =
          (map_sum id (\<lambda>a'. (a', source_side_of a, target_side_of a)) (parse_args w parser),
           s\<lparr>registry := reg,
             trace := trace s @ ParseKnownArgs # map IsFile (provided a path_names)
                @ custom_events w (custom_scores_source a)
                @ [GetScorerClass (score a), AddArgs, ParseArgs]\<rparr>)"
  then have "fst (get_args w s) =
          (case parse_args w parser of
             Inl e \<Rightarrow> Inl e
           | Inr a' \<Rightarrow> Inr (a', source_side_of a, target_side_of a))"
    by (cases "parse_args w parser") simp_all
  then show ?thesis using h
    by (intro exI [of _ a] exI [of _ reg] exI [of _ cls] exI [of _ parser]) simp
qed

theorem custom_scorers_loaded_before_final_parse_witness:
  "ParseArgs \<notin> set (trace example_init)
   \<and> ParseArgs \<in> set (trace (snd (get_args
        (example_world (both_args\<lparr>score := ''mine'', custom_scores_source := [''mine.py'']\<rparr>))
        example_init)))
   \<and> get_scorer_class
        (example_world (both_args\<lparr>score := ''mine'', custom_scores_source := [''mine.py'']\<rparr>))
        ''mine'' (registry example_init) = Inl (Raised ''unknown scorer'')
   \<and> (\<exists>a reg cls parser.
        parse_known_args
          (example_world (both_args\<lparr>score := ''mine'', custom_scores_source := [''mine.py'']\<rparr>))
          base_parser = Inr a
      \<and> registry_after
          (example_world (both_args\<lparr>score := ''mine'', custom_scores_source := [''mine.py'']\<rparr>))
          (custom_scores_source a) (registry example_init) = Inr reg
      \<and> get_scorer_class
          (example_world (both_args\<lparr>score := ''mine'', custom_scores_source := [''mine.py'']\<rparr>))
          (score a) reg = Inr cls
      \<and> add_args cls base_parser = Inr parser)
   \<and> trace (snd (get_args
        (example_world (both_args\<lparr>score := ''mine'', custom_scores_source := [''mine.py'']\<rparr>))
        example_init)) =
       [ParseKnownArgs, IsFile ''src'', IsFile ''adv'', IsFile ''ref'', IsFile ''out'',
        IsFile ''adv_out'', IsFile ''mine.py'', ReadCustomScorersSource ''mine.py'',
        GetScorerClass ''mine'', AddArgs, ParseArgs]"
proof -
  let ?a = "both_args\<lparr>score := ''mine'', custom_scores_source := [''mine.py'']\<rparr>"
  let ?w = "example_world ?a"
  have tr: "trace (snd (get_args ?w example_init)) =
       [ParseKnownArgs, IsFile ''src'', IsFile ''adv'', IsFile ''ref'', IsFile ''out'',
        IsFile ''adv_out'', IsFile ''mine.py'', ReadCustomScorersSource ''mine.py'',
        GetScorerClass ''mine'', AddArgs, ParseArgs]"
    by (simp add: eval_defs)
  have h1: "ParseArgs \<notin> set (trace example_init)" by (simp add: example_init_def)
  have h2: "ParseArgs \<in> set (trace (snd (get_args ?w example_init)))"
    unfolding tr by simp
  have c: "get_scorer_class ?w ''mine'' (registry example_init) = Inl (Raised ''unknown scorer'')"
    by (simp add: example_world_fields example_init_def)
  from custom_scorers_loaded_before_final_parse [OF h1 h2]
  have e: "\<exists>a reg cls parser. parse_known_args ?w base_parser = Inr a
      \<and> registry_after ?w (custom_scores_source a) (registry example_init) = Inr reg
      \<and> get_scorer_class ?w (score a) reg = Inr cls
      \<and> add_args cls base_parser = Inr parser"
    by blast
  show ?thesis by (intro conjI h1 h2 c e tr)
qed

subsection \<open>The output\<close>

text \<open>
  Claim C8. With \<^verbatim>\<open>--terse\<close>, a run in which every call returns prints exactly: the
  mean of the source side times the scale if the source side is active, then the mean
  of the target side times the scale if the target side is active, then the success
  fraction (as a percentage) if both are active; each line is one number with three
  decimals, and there is no other line.
\<close>

theorem terse_output:
  assumes "get_args w s = (Inr (a, ss, ts), s1)" and "terse a"
    and "scorer_from_args w a (registry s1) = Inr sc"
    and "ss \<Longrightarrow> loadtxt w (adv_src a) = Inr l1 \<and> loadtxt w (src a) = Inr l2
        \<and> scorer_score sc l1 l2 (src_lang a) = Inr s_src
        \<and> stats w s_src = Inr (s_src_avg, s_src_std, s_src_5, s_src_95)"
    and "ts \<Longrightarrow> loadtxt w (adv_out a) = Inr l3 \<and> loadtxt w (out a) = Inr l4
        \<and> loadtxt w (ref a) = Inr l5
        \<and> scorer_rd_score sc l3 l4 l5 (tgt_lang a) = Inr d_tgt
        \<and> stats w d_tgt = Inr (d_tgt_avg, d_tgt_std, d_tgt_5, d_tgt_95)"
    and "ss \<Longrightarrow> ts \<Longrightarrow> length d_tgt = length s_src \<and> 0 < length s_src"
  shows "\<exists>s2. main w s = (Inr (), s2) \<and>
     printed (trace s2) = printed (trace s)
       @ (if ss then [[Fixed 3 (s_src_avg * scale a)]] else [])
       @ (if ts then [[Fixed 3 (d_tgt_avg * scale a)]] else [])
       @ (if ss \<and> ts
          then [[Fixed 3 (success_fraction s_src d_tgt (length s_src) * 100)]] else [])"
proof -
  obtain s2 where m: "main w s = (Inr (), s2)"
    and p: "printed (trace s2) = printed (trace s)
       @ (if ss then source_report a sc (s_src_avg, s_src_std, s_src_5, s_src_95) else [])
       @ (if ts then target_report a sc ss (d_tgt_avg, d_tgt_std, d_tgt_5, d_tgt_95) else [])
       @ (if ss \<and> ts then success_report a (success_fraction s_src d_tgt (length s_src)) else [])"
    using main_ok_printed [OF assms(1,3-6)] by blast
  have "printed (trace s2) = printed (trace s)
       @ (if ss then [[Fixed 3 (s_src_avg * scale a)]] else [])
       @ (if ts then [[Fixed 3 (d_tgt_avg * scale a)]] else [])
       @ (if ss \<and> ts
          then [[Fixed 3 (success_fraction s_src d_tgt (length s_src) * 100)]] else [])"
    unfolding p using assms(2)
    by (simp add: source_report_def target_report_def success_report_def)
  then show ?thesis using m by blast
qed

theorem terse_output_witness:
  "fst (get_args (example_world (both_args\<lparr>terse := True\<rparr>)) example_init)
     = Inr (both_args\<lparr>terse := True\<rparr>, True, True)
   \<and> terse (both_args\<lparr>terse := True\<rparr>)
   \<and> (\<exists>s2. main (example_world (both_args\<lparr>terse := True\<rparr>)) example_init = (Inr (), s2)
        \<and> printed (trace s2) = [[Fixed 3 75], [Fixed 3 50], [Fixed 3 100]])"
proof -
  let ?a = "both_args\<lparr>terse := True\<rparr>"
  let ?w = "example_world ?a"
  let ?s1 = "snd (get_args ?w example_init)"
  have ga: "get_args ?w example_init = (Inr (?a, True, True), ?s1)"
    by (simp add: eval_defs)
  have te: "terse ?a" by simp
  have sc: "scorer_from_args ?w ?a (registry ?s1) = Inr example_scorer"
    by (simp add: eval_defs)
  have src: "True \<Longrightarrow> loadtxt ?w (adv_src ?a) = Inr [''the cat sit'', ''a b d'']
      \<and> loadtxt ?w (src ?a) = Inr [''the cat sat'', ''a b c'']
      \<and> scorer_score example_scorer [''the cat sit'', ''a b d''] [''the cat sat'', ''a b c'']
          (src_lang ?a) = Inr [3 / 4, 3 / 4]
      \<and> stats ?w [3 / 4, 3 / 4] = Inr (3 / 4, 0, 3 / 4, 3 / 4)"
    by (simp add: example_world_fields example_files_def both_args_def default_args_def
        example_scorer_def example_stats_def)
  have tgt: "True \<Longrightarrow> loadtxt ?w (adv_out ?a) = Inr [''le chien'', ''x w'']
      \<and> loadtxt ?w (out ?a) = Inr [''le chat'', ''x z'']
      \<and> loadtxt ?w (ref ?a) = Inr [''le chat'', ''x y'']
      \<and> scorer_rd_score example_scorer [''le chien'', ''x w''] [''le chat'', ''x z'']
          [''le chat'', ''x y''] (tgt_lang ?a) = Inr [1 / 2, 1 / 2]
      \<and> stats ?w [1 / 2, 1 / 2] = Inr (1 / 2, 0, 1 / 2, 1 / 2)"
    by (simp add: example_world_fields example_files_def both_args_def default_args_def
        example_scorer_def example_stats_def)
  have both: "True \<Longrightarrow> True \<Longrightarrow> length [1 / 2, 1 / 2 :: real] = length [3 / 4, 3 / 4 :: real]
      \<and> 0 < length [3 / 4, 3 / 4 :: real]"
    by simp
  note t = terse_output [OF ga te sc src tgt both]
  from t obtain s2 where m: "main ?w example_init = (Inr (), s2)"
    and p: "printed (trace s2) = printed (trace example_init)
       @ (if True then [[Fixed 3 (3 / 4 * scale ?a)]] else [])
       @ (if True then [[Fixed 3 (1 / 2 * scale ?a)]] else [])
       @ (if True \<and> True
          then [[Fixed 3 (success_fraction [3 / 4, 3 / 4] [1 / 2, 1 / 2] (length [3 / 4, 3 / 4 :: real]) * 100)]]
          else [])"
    by blast
  have "printed (trace s2) = [[Fixed 3 75], [Fixed 3 50], [Fixed 3 100]]"
    unfolding p
    by (simp add: example_init_def both_args_def default_args_def success_fraction_def
        success_def printed_def)
  then have c3: "\<exists>s2. main ?w example_init = (Inr (), s2)
        \<and> printed (trace s2) = [[Fixed 3 75], [Fixed 3 50], [Fixed 3 100]]"
    using m by blast
  have c1: "fst (get_args ?w example_init) = Inr (?a, True, True)"
    using ga by (metis fst_conv)
  show ?thesis by (intro conjI c1 te c3)
qed

text \<open>
  Claim C4, as amended. The numbers printed by a run in which every call returns are,
  in order: the statistics of the source side times \<^verbatim>\<open>--scale\<close>, the statistics of the
  target side times \<^verbatim>\<open>--scale\<close> (the mean alone with \<^verbatim>\<open>--terse\<close>), and the success
  fraction times the constant 100, whatever \<^verbatim>\<open>--scale\<close> is. The default of
  \<^verbatim>\<open>--scale\<close> is 100.
\<close>

theorem printed_numbers_scaled:
  assumes "get_args w s = (Inr (a, ss, ts), s1)"
    and "scorer_from_args w a (registry s1) = Inr sc"
    and "ss \<Longrightarrow> loadtxt w (adv_src a) = Inr l1 \<and> loadtxt w (src a) = Inr l2
        \<and> scorer_score sc l1 l2 (src_lang a) = Inr s_src
        \<and> stats w s_src = Inr (s_src_avg, s_src_std, s_src_5, s_src_95)"
    and "ts \<Longrightarrow> loadtxt w (adv_out a) = Inr l3 \<and> loadtxt w (out a) = Inr l4
        \<and> loadtxt w (ref a) = Inr l5
        \<and> scorer_rd_score sc l3 l4 l5 (tgt_lang a) = Inr d_tgt
        \<and> stats w d_tgt = Inr (d_tgt_avg, d_tgt_std, d_tgt_5, d_tgt_95)"
    and "ss \<Longrightarrow> ts \<Longrightarrow> length d_tgt = length s_src \<and> 0 < length s_src"
  shows "(\<exists>s2. main w s = (Inr (), s2) \<and>
     numbers (printed (trace s2)) = numbers (printed (trace s))
       @ (if ss then map (\<lambda>v. v * scale a)
            (if terse a then [s_src_avg] else [s_src_avg, s_src_std, s_src_5, s_src_95]) else [])
       @ (if ts then map (\<lambda>v. v * scale a)
            (if terse a then [d_tgt_avg] else [d_tgt_avg, d_tgt_std, d_tgt_5, d_tgt_95]) else [])
       @ (if ss \<and> ts then [success_fraction s_src d_tgt (length s_src) * 100] else []))
    \<and> scale default_args = 100"
proof -
  obtain s2 where m: "main w s = (Inr (), s2)"
    and p: "printed (trace s2) = printed (trace s)
       @ (if ss then source_report a sc (s_src_avg, s_src_std, s_src_5, s_src_95) else [])
       @ (if ts then target_report a sc ss (d_tgt_avg, d_tgt_std, d_tgt_5, d_tgt_95) else [])
       @ (if ss \<and> ts then success_report a (success_fraction s_src d_tgt (length s_src)) else [])"
    using main_ok_printed [OF assms] by blast
  have "numbers (printed (trace s2)) = numbers (printed (trace s))
       @ (if ss then map (\<lambda>v. v * scale a)
            (if terse a then [s_src_avg] else [s_src_avg, s_src_std, s_src_5, s_src_95]) else [])
       @ (if ts then map (\<lambda>v. v * scale a)
            (if terse a then [d_tgt_avg] else [d_tgt_avg, d_tgt_std, d_tgt_5, d_tgt_95]) else [])
       @ (if ss \<and> ts then [success_fraction s_src d_tgt (length s_src) * 100] else [])"
    unfolding p
    by (simp only: numbers_append numbers_source_report numbers_target_report
        numbers_success_report numbers_Nil if_distrib [of numbers] cong: if_cong)
  then have "\<exists>s2. main w s = (Inr (), s2) \<and>
     numbers (printed (trace s2)) = numbers (printed (trace s))
       @ (if ss then map (\<lambda>v. v * scale a)
            (if terse a then [s_src_avg] else [s_src_avg, s_src_std, s_src_5, s_src_95]) else [])
       @ (if ts then map (\<lambda>v. v * scale a)
            (if terse a then [d_tgt_avg] else [d_tgt_avg, d_tgt_std, d_tgt_5, d_tgt_95]) else [])
       @ (if ss \<and> ts then [success_fraction s_src d_tgt (length s_src) * 100] else [])"
    using m by blast
  moreover have "scale default_args = 100" by (simp add: default_args_def)
  ultimately show ?thesis by (rule conjI)
qed

text \<open>
  The claim as stated fails: with \<^verbatim>\<open>--scale 1\<close> the success fraction 1 is printed as
  100.
\<close>

theorem success_fraction_not_scaled:
  "scale terse_args = 1
   \<and> fst (main (example_world terse_args) example_init) = Inr ()
   \<and> printed (trace (snd (main (example_world terse_args) example_init)))
       = [[Fixed 3 (3 / 4)], [Fixed 3 (1 / 2)], [Fixed 3 100]]
   \<and> success_fraction [3 / 4, 3 / 4] [1 / 2, 1 / 2] 2 * scale terse_args = 1"
proof -
  have c1: "scale terse_args = 1" by (simp add: terse_args_def)
  have c2: "fst (main (example_world terse_args) example_init) = Inr ()"
    by (simp add: eval_defs)
  have c3: "printed (trace (snd (main (example_world terse_args) example_init)))
       = [[Fixed 3 (3 / 4)], [Fixed 3 (1 / 2)], [Fixed 3 100]]"
    by (simp add: eval_defs)
  have c4: "success_fraction [3 / 4, 3 / 4] [1 / 2, 1 / 2] 2 * scale terse_args = 1"
    by (simp add: terse_args_def success_fraction_def success_def)
  show ?thesis by (intro conjI c1 c2 c3 c4)
qed

theorem printed_numbers_scaled_witness:
  "fst (get_args (example_world (both_args\<lparr>scale := 2\<rparr>)) example_init)
     = Inr (both_args\<lparr>scale := 2\<rparr>, True, True)
   \<and> (\<exists>s2. main (example_world (both_args\<lparr>scale := 2\<rparr>)) example_init = (Inr (), s2)
        \<and> numbers (printed (trace s2)) = [3 / 2, 0, 3 / 2, 3 / 2, 1, 0, 1, 1, 100])
   \<and> scale default_args = 100"
proof -
  let ?a = "both_args\<lparr>scale := 2\<rparr>"
  let ?w = "example_world ?a"
  let ?s1 = "snd (get_args ?w example_init)"
  have ga: "get_args ?w example_init = (Inr (?a, True, True), ?s1)"
    by (simp add: eval_defs)
  have sc: "scorer_from_args ?w ?a (registry ?s1) = Inr example_scorer"
    by (simp add: eval_defs)
  have src: "True \<Longrightarrow> loadtxt ?w (adv_src ?a) = Inr [''the cat sit'', ''a b d'']
      \<and> loadtxt ?w (src ?a) = Inr [''the cat sat'', ''a b c'']
      \<and> scorer_score example_scorer [''the cat sit'', ''a b d''] [''the cat sat'', ''a b c'']
          (src_lang ?a) = Inr [3 / 4, 3 / 4]
      \<and> stats ?w [3 / 4, 3 / 4] = Inr (3 / 4, 0, 3 / 4, 3 / 4)"
    by (simp add: example_world_fields example_files_def both_args_def default_args_def
        example_scorer_def example_stats_def)
  have tgt: "True \<Longrightarrow> loadtxt ?w (adv_out ?a) = Inr [''le chien'', ''x w'']
      \<and> loadtxt ?w (out ?a) = Inr [''le chat'', ''x z'']
      \<and> loadtxt ?w (ref ?a) = Inr [''le chat'', ''x y'']
      \<and> scorer_rd_score example_scorer [''le chien'', ''x w''] [''le chat'', ''x z'']
          [''le chat'', ''x y''] (tgt_lang ?a) = Inr [1 / 2, 1 / 2]
      \<and> stats ?w [1 / 2, 1 / 2] = Inr (1 / 2, 0, 1 / 2, 1 / 2)"
    by (simp add: example_world_fields example_files_def both_args_def default_args_def
        example_scorer_def example_stats_def)
  have both: "True \<Longrightarrow> True \<Longrightarrow> length [1 / 2, 1 / 2 :: real] = length [3 / 4, 3 / 4 :: real]
      \<and> 0 < length [3 / 4, 3 / 4 :: real]"
    by simp
  note t = printed_numbers_scaled [OF ga sc src tgt both]
  from t have c3: "scale default_args = 100" by (rule conjunct2)
  from conjunct1 [OF t] obtain s2 where m: "main ?w example_init = (Inr (), s2)"
    and n: "numbers (printed (trace s2)) = numbers (printed (trace example_init))
       @ (if True then map (\<lambda>v. v * scale ?a)
            (if terse ?a then [3 / 4] else [3 / 4, 0, 3 / 4, 3 / 4]) else [])
       @ (if True then map (\<lambda>v. v * scale ?a)
            (if terse ?a then [1 / 2] else [1 / 2, 0, 1 / 2, 1 / 2]) else [])
       @ (if True \<and> True
          then [success_fraction [3 / 4, 3 / 4] [1 / 2, 1 / 2] (length [3 / 4, 3 / 4 :: real]) * 100]
          else [])"
    by blast
  have "numbers (printed (trace s2)) = [3 / 2, 0, 3 / 2, 3 / 2, 1, 0, 1, 1, 100]"
    unfolding n
    by (simp add: example_init_def both_args_def default_args_def success_fraction_def
        success_def printed_def numbers_def)
  then have c2: "\<exists>s2. main ?w example_init = (Inr (), s2)
        \<and> numbers (printed (trace s2)) = [3 / 2, 0, 3 / 2, 3 / 2, 1, 0, 1, 1, 100]"
    using m by blast
  have c1: "fst (get_args ?w example_init) = Inr (?a, True, True)"
    using ga by (metis fst_conv)
  show ?thesis by (intro conjI c1 c2 c3)
qed

end
